theory Spec2Isabelle
  imports Complex_Main
begin

section \<open>The KPI deck generator (app.py)\<close>

text \<open>
  The script collects inputs through widgets, loads the uploaded tables, shows the
  uploaded screenshots, and on the press of the generate button builds one or two
  slides. The embedding follows the script top to bottom. What the script delegates
  to pandas, PIL, Streamlit and python-pptx is a parameter (the record \<open>lib\<close>): a
  call that can raise returns the message of its exception or its value. An exception
  inside a \<open>try\<close> becomes a warning; an exception outside one ends the run, and the
  run then delivers nothing. Bytes and strings are \<open>char list\<close>. Coordinates are the
  inch values written in the source, as exact numbers; the conversion to EMU inside
  \<open>Inches\<close> is not part of the model. Inserting a shape, setting a font, a fill or a
  line, and saving the file are taken to succeed; assigning a text is not, since
  python-pptx refuses a string that is not XML compatible. What the script only
  writes on the page (captions, the list of queued cards, the success message) is
  left out; the warnings are kept, in the order they are shown. \<open>crop_image\<close> has no
  call site, and is left out too.
\<close>

subsection \<open>Data\<close>

type_synonym bytes = string

type_synonym rgb = "nat \<times> nat \<times> nat"

text \<open>An uploaded file: its name and its bytes.\<close>

record uploaded =
  name :: string
  content :: bytes

text \<open>
  A queued card is the dictionary built at line 198, always with the three keys, so
  \<open>c.get("note", "")\<close> is the note.
\<close>

record card =
  headline :: string
  value_text :: string
  note_text :: string

record para =
  run_text :: string
  font_bold :: bool
  font_size :: int
  level :: nat
  centered :: bool

datatype chart_kind = LINE_MARKERS | COLUMN_CLUSTERED

text \<open>
  The shapes the script places: the rectangle of a card (position, size, fill, line
  colour, line width in points), a text box (position, size, paragraphs), a chart
  (kind, position, size, categories, series name, values) and a picture (position,
  optional width and height, PNG bytes).
\<close>

datatype 'num shape =
  AutoShape real real real real rgb rgb int
| Textbox real real real real "para list"
| Chart chart_kind real real real real "string list" string "'num list"
| Picture real real "real option" "real option" bytes

record ('layout, 'num) slide =
  layout :: 'layout
  shapes :: "'num shape list"
  notes_text :: "string option"

record ('layout, 'num) presentation =
  slide_layouts :: "'layout list"
  slides :: "('layout, 'num) slide list"

text \<open>
  The library calls. \<open>read_json\<close> is \<open>json.load\<close> followed by
  \<open>pd.json_normalize\<close> (both inside the same \<open>try\<close>); \<open>columns\<close> is
  \<open>df.columns.tolist()\<close>; \<open>Presentation\<close> opens the template bytes, or the default
  theme on \<open>None\<close>; \<open>st_image\<close> is the exception, if any, of the preview
  \<open>st.image\<close> of an uploaded screenshot; \<open>xml_error\<close> is the exception, if any, of
  assigning a string as the text of a run, a paragraph or a notes frame;
  \<open>column_str\<close> and \<open>column_float\<close> are \<open>df[col].astype(str).values\<close> and
  \<open>df[col].astype(float).values\<close>; \<open>shapes_add_chart\<close> is the exception, if any,
  of \<open>slide.shapes.add_chart\<close> (line 112), which then places no chart;
  \<open>format_chart\<close> is the exception, if any, of the formatting of the placed chart
  (lines 113-117); \<open>image_open\<close> is \<open>Image.open(img).convert("RGB")\<close>;
  \<open>save_png\<close> is \<open>img.save\<close> into a buffer followed by \<open>add_picture\<close>.
\<close>

record ('df, 'img, 'num, 'layout) lib =
  read_csv :: "bytes \<Rightarrow> string + 'df"
  read_excel :: "bytes \<Rightarrow> string + 'df"
  read_json :: "bytes \<Rightarrow> string + 'df"
  columns :: "'df \<Rightarrow> string list"
  Presentation :: "bytes option \<Rightarrow> string + ('layout, 'num) presentation"
  st_image :: "uploaded \<Rightarrow> string option"
  xml_error :: "string \<Rightarrow> string option"
  column_str :: "'df \<Rightarrow> string \<Rightarrow> string + string list"
  column_float :: "'df \<Rightarrow> string \<Rightarrow> string + 'num list"
  shapes_add_chart :: "chart_kind \<Rightarrow> string list \<Rightarrow> string \<Rightarrow> 'num list \<Rightarrow> string option"
  format_chart :: "chart_kind \<Rightarrow> string list \<Rightarrow> string \<Rightarrow> 'num list \<Rightarrow> string option"
  image_open :: "uploaded \<Rightarrow> string + 'img"
  save_png :: "'img \<Rightarrow> string + bytes"

text \<open>
  The values of the widgets in one run of the script with the generate button pressed.
  \<open>accent_color\<close> is the colour picker's \<open>#rrggbb\<close> read as three bytes (lines
  217-218); \<open>df_choice\<close>, \<open>x_choice\<close> and \<open>y_choice\<close> are the positions the user
  picked in the three mapping select boxes; \<open>cards\<close> is \<open>st.session_state.cards\<close>;
  \<open>now\<close> is the formatted time stamp of the download name.
\<close>

record request =
  template_file :: "bytes option"
  data_files :: "uploaded list"
  screenshots :: "uploaded list"
  title_text :: string
  customer :: string
  date_range :: string
  purpose :: string
  max_slides :: nat
  accent_color :: rgb
  include_speaker_notes :: bool
  enable_auto_crop :: bool
  chart_type :: string
  df_choice :: nat
  x_choice :: nat
  y_choice :: nat
  cards :: "card list"
  now :: string

record 'df chart_cfg =
  cfg_df :: 'df
  cfg_x :: string
  cfg_y :: string
  cfg_type :: string
  cfg_series :: string

text \<open>An exception that nothing catches ends the run.\<close>

datatype failure = IndexError | Raised string

record ('layout, 'num) delivery =
  deck :: "('layout, 'num) presentation"
  warnings :: "string list"
  file_name :: string

text \<open>Sequencing: the first exception ends what follows.\<close>

definition and_then :: "failure + 'a \<Rightarrow> ('a \<Rightarrow> failure + 'b) \<Rightarrow> failure + 'b" where
  "and_then m f = (case m of Inl e \<Rightarrow> Inl e | Inr x \<Rightarrow> f x)"

subsection \<open>Strings\<close>

text \<open>
  \<open>str.lower\<close> on the ASCII letters, which is all the extension test looks at: a
  byte from \<open>A\<close> (65) to \<open>Z\<close> (90) gets 32 added, which sets its bit 5.
\<close>

fun lower_char :: "char \<Rightarrow> char" where
  "lower_char (Char b0 b1 b2 b3 b4 b5 b6 b7) =
     (let n = (of_char (Char b0 b1 b2 b3 b4 b5 b6 b7) :: nat)
      in if 65 \<le> n \<and> n \<le> 90 then Char b0 b1 b2 b3 b4 True b6 b7
         else Char b0 b1 b2 b3 b4 b5 b6 b7)"

definition lower :: "string \<Rightarrow> string" where
  "lower s = map lower_char s"

definition endswith :: "string \<Rightarrow> string \<Rightarrow> bool" where
  "endswith s suf \<longleftrightarrow> length suf \<le> length s \<and> drop (length s - length suf) s = suf"

fun join :: "string \<Rightarrow> string list \<Rightarrow> string" where
  "join sep [] = []"
| "join sep [x] = x"
| "join sep (x # y # ys) = x @ sep @ join sep (y # ys)"

definition bullet :: string where
  "bullet = [CHR 0xE2, CHR 0x80, CHR 0xA2]"

definition em_dash :: string where
  "em_dash = [CHR 0xE2, CHR 0x80, CHR 0x94]"

definition newline :: string where
  "newline = [CHR 0x0A]"

subsection \<open>Helpers (lines 27-137)\<close>

text \<open>
  \<open>load_table\<close> returns the table, or \<open>None\<close>, and the warnings it showed. The
  branches are tried in the order of the source; an exception of a parser is caught
  and reported, a name with none of the extensions falls through to the last warning.
\<close>

definition could_not_read :: "uploaded \<Rightarrow> string \<Rightarrow> string" where
  "could_not_read file e = ''Could not read '' @ name file @ '': '' @ e"

definition unsupported :: "uploaded \<Rightarrow> string" where
  "unsupported file = ''Unsupported table file: '' @ name file"

definition caught :: "uploaded \<Rightarrow> string + 'df \<Rightarrow> 'df option \<times> string list" where
  "caught file res =
     (case res of Inl e \<Rightarrow> (None, [could_not_read file e]) | Inr df \<Rightarrow> (Some df, []))"

definition load_table ::
  "('df, 'img, 'num, 'layout) lib \<Rightarrow> uploaded \<Rightarrow> 'df option \<times> string list" where
  "load_table L file =
     (let nm = lower (name file) in
      if endswith nm ''.csv'' then caught file (read_csv L (content file))
      else if endswith nm ''.xlsx'' \<or> endswith nm ''.xls'' then
        caught file (read_excel L (content file))
      else if endswith nm ''.json'' then caught file (read_json L (content file))
      else (None, [unsupported file]))"

text \<open>
  Assigning a text (lines 52, 60 and 132) raises when the string is not XML
  compatible. \<open>add_textbox\<close> gives the paragraphs of the text frame.
\<close>

definition set_text :: "('df, 'img, 'num, 'layout) lib \<Rightarrow> string \<Rightarrow> failure + string" where
  "set_text L s = (case xml_error L s of Some e \<Rightarrow> Inl (Raised e) | None \<Rightarrow> Inr s)"

definition add_textbox ::
  "('df, 'img, 'num, 'layout) lib \<Rightarrow> string \<Rightarrow> string option \<Rightarrow> bool \<Rightarrow> int \<Rightarrow> bool \<Rightarrow>
   failure + para list" where
  "add_textbox L title subtitle center fsize bold =
     and_then (set_text L title) (\<lambda>t.
       (let p = \<lparr>run_text = t, font_bold = bold, font_size = fsize, level = 0,
                 centered = center\<rparr>
        in case subtitle of
             None \<Rightarrow> Inr [p]
           | Some s \<Rightarrow>
               if s = [] then Inr [p]
               else and_then (set_text L s) (\<lambda>s2.
                      Inr [p, \<lparr>run_text = s2, font_bold = False,
                               font_size = max 12 (fsize - 4), level = 1,
                               centered = center\<rparr>])))"

definition add_kpi_card ::
  "('df, 'img, 'num, 'layout) lib \<Rightarrow> real \<Rightarrow> real \<Rightarrow> real \<Rightarrow> real \<Rightarrow> string \<Rightarrow> string \<Rightarrow>
   string \<Rightarrow> rgb \<Rightarrow> failure + 'num shape list" where
  "add_kpi_card L left_in top_in width_in height_in hl val nt accent =
     and_then (add_textbox L hl None False 16 True) (\<lambda>hp.
     and_then (add_textbox L val None False 24 True) (\<lambda>vp.
     and_then
       (if nt \<noteq> [] then
          and_then (add_textbox L nt None False 12 False) (\<lambda>np.
            Inr [Textbox (left_in + 0.25) (top_in + 1.4) (width_in - 0.5) (height_in - 1.6) np])
        else Inr [])
       (\<lambda>note_box.
          Inr ([AutoShape left_in top_in width_in height_in (255, 255, 255) accent 2,
                Textbox (left_in + 0.25) (top_in + 0.2) (width_in - 0.5) 0.5 hp,
                Textbox (left_in + 0.25) (top_in + 0.7) (width_in - 0.5) 0.8 vp] @
               note_box))))"

text \<open>
  \<open>add_chart\<close> gives the chart it placed on the slide, if it got that far, and the
  exception it raised, if any: both, when the formatting raises after line 112.
\<close>

definition add_chart ::
  "('df, 'img, 'num, 'layout) lib \<Rightarrow> real \<Rightarrow> real \<Rightarrow> real \<Rightarrow> real \<Rightarrow> 'df \<Rightarrow> string \<Rightarrow> string \<Rightarrow>
   string \<Rightarrow> string \<Rightarrow> 'num shape list \<times> string option" where
  "add_chart L left_in top_in width_in height_in df xc yc ctype_name series_name =
     (case column_str L df xc of
        Inl e \<Rightarrow> ([], Some e)
      | Inr categories \<Rightarrow>
          (case column_float L df yc of
             Inl e \<Rightarrow> ([], Some e)
           | Inr vals \<Rightarrow>
               (let ctype = (if ctype_name = ''line'' then LINE_MARKERS else COLUMN_CLUSTERED)
                in case shapes_add_chart L ctype categories series_name vals of
                     Some e \<Rightarrow> ([], Some e)
                   | None \<Rightarrow>
                       ([Chart ctype left_in top_in width_in height_in categories series_name
                           vals],
                        format_chart L ctype categories series_name vals))))"

definition add_screenshot ::
  "('df, 'img, 'num, 'layout) lib \<Rightarrow> 'img \<Rightarrow> real \<Rightarrow> real \<Rightarrow> real option \<Rightarrow> real option \<Rightarrow>
   string + 'num shape" where
  "add_screenshot L img left_in top_in width_in height_in =
     (case save_png L img of
        Inl e \<Rightarrow> Inl e
      | Inr png \<Rightarrow>
          Inr (Picture left_in top_in
                 (case width_in of None \<Rightarrow> None | Some w \<Rightarrow> if w = 0 then None else Some w)
                 (case height_in of None \<Rightarrow> None | Some h \<Rightarrow> if h = 0 then None else Some h)
                 png))"

definition add_speaker_notes ::
  "('df, 'img, 'num, 'layout) lib \<Rightarrow> string \<Rightarrow> failure + string" where
  "add_speaker_notes L notes = set_text L notes"

definition create_presentation ::
  "('df, 'img, 'num, 'layout) lib \<Rightarrow> bytes option \<Rightarrow> string + ('layout, 'num) presentation" where
  "create_presentation L base_template_bytes =
     (case base_template_bytes of
        None \<Rightarrow> Presentation L None
      | Some b \<Rightarrow> if b = [] then Presentation L None else Presentation L (Some b))"

subsection \<open>The main script (lines 159-212)\<close>

text \<open>The loop over the data files: each file is loaded, a table is appended.\<close>

fun load_tables ::
  "('df, 'img, 'num, 'layout) lib \<Rightarrow> uploaded list \<Rightarrow> 'df list \<times> string list" where
  "load_tables L [] = ([], [])"
| "load_tables L (f # fs) =
     (let (df, w) = load_table L f; (tables, ws) = load_tables L fs
      in (case df of None \<Rightarrow> (tables, w @ ws) | Some t \<Rightarrow> (t # tables, w @ ws)))"

text \<open>
  A select box returns one of its options, or \<open>None\<close> when there is none: the one
  at the position the user picked, or the first one, the default, when nothing was
  picked there.
\<close>

definition selectbox :: "'a list \<Rightarrow> nat \<Rightarrow> 'a option" where
  "selectbox opts choice =
     (if opts = [] then None
      else if choice < length opts then Some (opts ! choice)
      else Some (opts ! 0))"

text \<open>
  The mapping block (lines 170-180): with no table there is no chart table and no
  column; otherwise the table is \<open>tables[df_idx]\<close> for the index the first select
  box returns, which is one of \<open>range(len(tables))\<close>, and each column is one of the
  table's own.
\<close>

definition chart_mapping ::
  "('df, 'img, 'num, 'layout) lib \<Rightarrow> 'df list \<Rightarrow> request \<Rightarrow>
   'df option \<times> string option \<times> string option" where
  "chart_mapping L tables r =
     (if tables = [] then (None, None, None)
      else (case selectbox [0..<length tables] (df_choice r) of
              None \<Rightarrow> (None, None, None)
            | Some df_idx \<Rightarrow>
                (let chart_df = tables ! df_idx
                 in (Some chart_df, selectbox (columns L chart_df) (x_choice r),
                     selectbox (columns L chart_df) (y_choice r)))))"

text \<open>The add-card button appends one dictionary to the session's list.\<close>

definition add_card :: "card list \<Rightarrow> string \<Rightarrow> string \<Rightarrow> string \<Rightarrow> card list" where
  "add_card session_cards hl val nt =
     session_cards @ [\<lparr>headline = hl, value_text = val, note_text = nt\<rparr>]"

text \<open>
  The preview of the uploaded screenshots (lines 207-210) is in no \<open>try\<close>: the
  first image that cannot be shown ends the run before the button is looked at.
\<close>

fun preview :: "('df, 'img, 'num, 'layout) lib \<Rightarrow> uploaded list \<Rightarrow> failure + unit" where
  "preview L [] = Inr ()"
| "preview L (f # fs) =
     (case st_image L f of Some e \<Rightarrow> Inl (Raised e) | None \<Rightarrow> preview L fs)"

subsection \<open>The generate handler (lines 215-317)\<close>

definition grid_positions :: "(real \<times> real) list" where
  "grid_positions = [(0.5, 1.5), (6.5, 1.5), (0.5, 4.0), (6.5, 4.0)]"

text \<open>Lines 232-241: the title and the subtitle of a slide.\<close>

definition subtitle_text :: "request \<Rightarrow> string" where
  "subtitle_text r =
     join ('' '' @ bullet @ '' '')
       ((if customer r \<noteq> [] then [''Customer: '' @ customer r] else []) @
        (if date_range r \<noteq> [] then [''Range: '' @ date_range r] else []) @
        (if purpose r \<noteq> [] then [''Purpose: '' @ purpose r] else []))"

definition title_block ::
  "('df, 'img, 'num, 'layout) lib \<Rightarrow> request \<Rightarrow> string \<Rightarrow> failure + 'num shape list" where
  "title_block L r title_str =
     and_then (add_textbox L title_str None False 28 True) (\<lambda>tp.
     and_then (add_textbox L (subtitle_text r) None False 12 False) (\<lambda>sp.
       Inr [Textbox 0.5 0.4 12 0.6 tp, Textbox 0.5 1.0 12 0.4 sp]))"

text \<open>Lines 243-256: the cards of the first four places of the subset, on the grid.\<close>

fun place_cards ::
  "('df, 'img, 'num, 'layout) lib \<Rightarrow> rgb \<Rightarrow> (nat \<times> card) list \<Rightarrow> failure + 'num shape list" where
  "place_cards L accent_rgb [] = Inr []"
| "place_cards L accent_rgb ((idx, c) # rest) =
     and_then
       (add_kpi_card L (fst (grid_positions ! idx)) (snd (grid_positions ! idx)) 5.5 2.2
          (headline c) (value_text c) (note_text c) accent_rgb)
       (\<lambda>shs. and_then (place_cards L accent_rgb rest) (\<lambda>more. Inr (shs @ more)))"

definition card_grid ::
  "('df, 'img, 'num, 'layout) lib \<Rightarrow> rgb \<Rightarrow> card list \<Rightarrow> failure + 'num shape list" where
  "card_grid L accent_rgb cards_subset =
     place_cards L accent_rgb (enumerate 0 (take 4 cards_subset))"

text \<open>
  Lines 258-267: the chart. Whatever \<open>add_chart\<close> placed stays on the slide; its
  exception becomes the warning that the chart could not be added.
\<close>

definition chart_block ::
  "('df, 'img, 'num, 'layout) lib \<Rightarrow> 'df chart_cfg option \<Rightarrow> 'num shape list \<times> string list" where
  "chart_block L chart_cfg =
     (case chart_cfg of
        None \<Rightarrow> ([], [])
      | Some cfg \<Rightarrow>
          (case add_chart L 0.5 6.3 11.5 2.3 (cfg_df cfg) (cfg_x cfg) (cfg_y cfg)
                  (cfg_type cfg) (cfg_series cfg) of
             (placed, None) \<Rightarrow> (placed, [])
           | (placed, Some e) \<Rightarrow> (placed, [''Chart could not be added: '' @ e])))"

text \<open>Lines 269-278: the first image of the subset, or the warning.\<close>

definition embed_image ::
  "('df, 'img, 'num, 'layout) lib \<Rightarrow> uploaded \<Rightarrow> 'num shape list \<times> string list" where
  "embed_image L img =
     (case image_open L img of
        Inl e \<Rightarrow> ([], [''Could not embed '' @ name img @ '': '' @ e])
      | Inr pil \<Rightarrow>
          (case add_screenshot L pil 0.5 6.3 (Some 11.5) None of
             Inl e \<Rightarrow> ([], [''Could not embed '' @ name img @ '': '' @ e])
           | Inr pic \<Rightarrow> ([pic], [])))"

definition screenshot_block ::
  "('df, 'img, 'num, 'layout) lib \<Rightarrow> uploaded list \<Rightarrow> 'num shape list \<times> string list" where
  "screenshot_block L imgs_subset =
     (let rs = map (embed_image L) (take 1 imgs_subset)
      in (concat (map fst rs), concat (map snd rs)))"

text \<open>Lines 280-287: the speaker notes.\<close>

definition notes_lines :: "card list \<Rightarrow> 'df chart_cfg option \<Rightarrow> string list" where
  "notes_lines cards_subset chart_cfg =
     map (\<lambda>c. ''- '' @ headline c @ '': '' @ value_text c @ '' '' @ em_dash @ '' '' @
                note_text c)
       (take 4 cards_subset) @
     (case chart_cfg of
        None \<Rightarrow> []
      | Some cfg \<Rightarrow>
          [''- Chart: '' @ cfg_type cfg @ '' of '' @ cfg_y cfg @ '' by '' @ cfg_x cfg])"

definition notes_block ::
  "('df, 'img, 'num, 'layout) lib \<Rightarrow> request \<Rightarrow> card list \<Rightarrow> 'df chart_cfg option \<Rightarrow>
   failure + string option" where
  "notes_block L r cards_subset chart_cfg =
     (if include_speaker_notes r then
        and_then (add_speaker_notes L (join newline (notes_lines cards_subset chart_cfg)))
          (\<lambda>n. Inr (Some n))
      else Inr None)"

text \<open>
  \<open>build_slide\<close> adds one slide to the presentation; the state is the presentation
  and the warnings shown so far. The layout is \<open>prs.slide_layouts[layout_idx]\<close>, an
  \<open>IndexError\<close> out of range. \<open>slide_body\<close> is what lines 232-287 put on the new
  slide, with the warnings of the two \<open>try\<close> blocks.
\<close>

definition slide_body ::
  "('df, 'img, 'num, 'layout) lib \<Rightarrow> request \<Rightarrow> 'layout \<Rightarrow> string \<Rightarrow> card list \<Rightarrow>
   uploaded list \<Rightarrow> 'df chart_cfg option \<Rightarrow> failure + (('layout, 'num) slide \<times> string list)" where
  "slide_body L r lay title_str cards_subset imgs_subset chart_cfg =
     and_then (title_block L r title_str) (\<lambda>title_shapes.
     and_then (card_grid L (accent_color r) cards_subset) (\<lambda>card_shapes.
       (let (chart_shapes, chart_ws) = chart_block L chart_cfg;
            (img_shapes, img_ws) = screenshot_block L imgs_subset
        in and_then (notes_block L r cards_subset chart_cfg) (\<lambda>notes.
             Inr (\<lparr>layout = lay,
                   shapes = title_shapes @ card_shapes @ chart_shapes @ img_shapes,
                   notes_text = notes\<rparr>,
                  chart_ws @ img_ws)))))"

definition build_slide ::
  "('df, 'img, 'num, 'layout) lib \<Rightarrow> request \<Rightarrow> nat \<Rightarrow> string \<Rightarrow> card list \<Rightarrow> uploaded list \<Rightarrow>
   'df chart_cfg option \<Rightarrow> ('layout, 'num) presentation \<times> string list \<Rightarrow>
   failure + (('layout, 'num) presentation \<times> string list)" where
  "build_slide L r layout_idx title_str cards_subset imgs_subset chart_cfg st =
     (let (prs, ws) = st in
      if layout_idx < length (slide_layouts prs) then
        and_then (slide_body L r (slide_layouts prs ! layout_idx) title_str
                    cards_subset imgs_subset chart_cfg)
          (\<lambda>(sl, new_ws). Inr (prs\<lparr>slides := slides prs @ [sl]\<rparr>, ws @ new_ws))
      else Inl IndexError)"

text \<open>Lines 224-227 and 289-296: how many slides, and which assets go on which.\<close>

definition use_two_slides :: "request \<Rightarrow> bool" where
  "use_two_slides r \<longleftrightarrow>
     length (cards r) + length (screenshots r) > 4 \<and> max_slides r \<ge> 2"

definition half_cards :: "request \<Rightarrow> nat" where
  "half_cards r = max 4 ((length (cards r) + 1) div 2)"

definition half_imgs :: "request \<Rightarrow> nat" where
  "half_imgs r = max 1 ((length (screenshots r) + 1) div 2)"

definition split_assets ::
  "request \<Rightarrow> card list \<times> card list \<times> uploaded list \<times> uploaded list" where
  "split_assets r =
     (if use_two_slides r then
        (take (half_cards r) (cards r), drop (half_cards r) (cards r),
         take (half_imgs r) (screenshots r), drop (half_imgs r) (screenshots r))
      else (cards r, [], screenshots r, []))"

text \<open>Lines 298-301: the chart configuration, when a table and both columns are there.\<close>

definition make_chart_cfg ::
  "request \<Rightarrow> 'df option \<Rightarrow> string option \<Rightarrow> string option \<Rightarrow> 'df chart_cfg option" where
  "make_chart_cfg r chart_df xc yc =
     (case (chart_df, xc, yc) of
        (Some df, Some x, Some y) \<Rightarrow>
          if x \<noteq> [] \<and> y \<noteq> [] then
            Some \<lparr>cfg_df = df, cfg_x = x, cfg_y = y, cfg_type = chart_type r, cfg_series = y\<rparr>
          else None
      | _ \<Rightarrow> None)"

text \<open>
  One run of the script with the button pressed: the tables are loaded, the mapping is
  read, the screenshots are shown, and the handler builds and delivers the deck.
\<close>

definition generate ::
  "('df, 'img, 'num, 'layout) lib \<Rightarrow> request \<Rightarrow> failure + ('layout, 'num) delivery" where
  "generate L r =
     (let (tables, ws) = load_tables L (data_files r);
          (chart_df, x_col, y_col) = chart_mapping L tables r
      in and_then (preview L (screenshots r)) (\<lambda>shown.
           case create_presentation L (template_file r) of
             Inl e \<Rightarrow> Inl (Raised e)
           | Inr prs \<Rightarrow>
               (let layout_idx = (if length (slide_layouts prs) > 6 then 6 else 0);
                    (cards1, cards2, imgs1, imgs2) = split_assets r;
                    chart_cfg = make_chart_cfg r chart_df x_col y_col
                in and_then
                     (build_slide L r layout_idx (title_text r) cards1 imgs1 chart_cfg
                        (prs, ws))
                     (\<lambda>st1.
                        and_then
                          (if use_two_slides r then
                             build_slide L r layout_idx (title_text r @ '' (cont.)'')
                               cards2 imgs2 None st1
                           else Inr st1)
                          (\<lambda>(prs2, ws2).
                             Inr \<lparr>deck = prs2, warnings = ws2,
                                  file_name = ''EBR_KPI_Deck_'' @ now r @ ''.pptx''\<rparr>)))))"

subsection \<open>What is read off a generated deck\<close>

text \<open>
  A card visual is the rectangle \<open>add_kpi_card\<close> draws, one per card; its headline
  is the only text box set in 16 point. An image is a picture shape.
\<close>

fun is_card_rectangle :: "'num shape \<Rightarrow> bool" where
  "is_card_rectangle (AutoShape l t w h fill line_rgb pt) = True"
| "is_card_rectangle sh = False"

fun is_picture :: "'num shape \<Rightarrow> bool" where
  "is_picture (Picture l t w h png) = True"
| "is_picture sh = False"

fun is_chart :: "'num shape \<Rightarrow> bool" where
  "is_chart (Chart k l t w h cats nm vals) = True"
| "is_chart sh = False"

fun headline_text :: "'num shape \<Rightarrow> string list" where
  "headline_text (Textbox l t w h [p]) = (if font_size p = 16 then [run_text p] else [])"
| "headline_text sh = []"

definition card_visuals :: "('layout, 'num) slide \<Rightarrow> nat" where
  "card_visuals s = length (filter is_card_rectangle (shapes s))"

definition pictures :: "('layout, 'num) slide \<Rightarrow> nat" where
  "pictures s = length (filter is_picture (shapes s))"

definition charts :: "('layout, 'num) slide \<Rightarrow> nat" where
  "charts s = length (filter is_chart (shapes s))"

definition card_headlines :: "('layout, 'num) slide \<Rightarrow> string list" where
  "card_headlines s = concat (map headline_text (shapes s))"

text \<open>
  The template may bring slides of its own; the slides a run produces are those it
  appends to them. A run that an exception ends produces none.
\<close>

definition template_slides ::
  "('df, 'img, 'num, 'layout) lib \<Rightarrow> request \<Rightarrow> ('layout, 'num) slide list" where
  "template_slides L r =
     (case create_presentation L (template_file r) of Inl e \<Rightarrow> [] | Inr prs \<Rightarrow> slides prs)"

definition produced_slides ::
  "('df, 'img, 'num, 'layout) lib \<Rightarrow> request \<Rightarrow> ('layout, 'num) slide list" where
  "produced_slides L r =
     (case generate L r of
        Inl e \<Rightarrow> []
      | Inr d \<Rightarrow> drop (length (template_slides L r)) (slides (deck d)))"

definition shown_warnings :: "('df, 'img, 'num, 'layout) lib \<Rightarrow> request \<Rightarrow> string list" where
  "shown_warnings L r = (case generate L r of Inl e \<Rightarrow> [] | Inr d \<Rightarrow> warnings d)"

subsection \<open>The texts a slide assigns, and what it holds when none raises\<close>

text \<open>
  The strings assigned while a slide is built, in the order of assignment: the title,
  the subtitle, for each of the first four cards its headline, its value and its note
  when it has one, and the speaker notes when they are included. \<open>first_raise\<close> is
  the exception of the first of a list of assignments that raises.
\<close>

definition card_texts :: "card \<Rightarrow> string list" where
  "card_texts c = [headline c, value_text c] @ (if note_text c \<noteq> [] then [note_text c] else [])"

definition slide_texts :: "request \<Rightarrow> string \<Rightarrow> card list \<Rightarrow> 'df chart_cfg option \<Rightarrow> string list" where
  "slide_texts r title_str cards_subset chart_cfg =
     [title_str, subtitle_text r] @ concat (map card_texts (take 4 cards_subset)) @
     (if include_speaker_notes r then [join newline (notes_lines cards_subset chart_cfg)]
      else [])"

fun first_raise :: "('df, 'img, 'num, 'layout) lib \<Rightarrow> string list \<Rightarrow> string option" where
  "first_raise L [] = None"
| "first_raise L (s # ss) =
     (case xml_error L s of Some e \<Rightarrow> Some e | None \<Rightarrow> first_raise L ss)"

definition one_para :: "string \<Rightarrow> int \<Rightarrow> bool \<Rightarrow> para list" where
  "one_para t fsize bold =
     [\<lparr>run_text = t, font_bold = bold, font_size = fsize, level = 0, centered = False\<rparr>]"

definition kpi_card_shapes ::
  "real \<Rightarrow> real \<Rightarrow> real \<Rightarrow> real \<Rightarrow> string \<Rightarrow> string \<Rightarrow> string \<Rightarrow> rgb \<Rightarrow> 'num shape list" where
  "kpi_card_shapes left_in top_in width_in height_in hl val nt accent =
     [AutoShape left_in top_in width_in height_in (255, 255, 255) accent 2,
      Textbox (left_in + 0.25) (top_in + 0.2) (width_in - 0.5) 0.5 (one_para hl 16 True),
      Textbox (left_in + 0.25) (top_in + 0.7) (width_in - 0.5) 0.8 (one_para val 24 True)] @
     (if nt \<noteq> [] then
        [Textbox (left_in + 0.25) (top_in + 1.4) (width_in - 0.5) (height_in - 1.6)
           (one_para nt 12 False)]
      else [])"

definition placed_cards :: "rgb \<Rightarrow> (nat \<times> card) list \<Rightarrow> 'num shape list" where
  "placed_cards accent_rgb ics =
     concat (map (\<lambda>(idx, c).
        kpi_card_shapes (fst (grid_positions ! idx)) (snd (grid_positions ! idx)) 5.5 2.2
          (headline c) (value_text c) (note_text c) accent_rgb) ics)"

definition grid_shapes :: "rgb \<Rightarrow> card list \<Rightarrow> 'num shape list" where
  "grid_shapes accent_rgb cards_subset =
     placed_cards accent_rgb (enumerate 0 (take 4 cards_subset))"

definition title_shapes :: "request \<Rightarrow> string \<Rightarrow> 'num shape list" where
  "title_shapes r title_str =
     [Textbox 0.5 0.4 12 0.6 (one_para title_str 28 True),
      Textbox 0.5 1.0 12 0.4 (one_para (subtitle_text r) 12 False)]"

definition slide_content ::
  "('df, 'img, 'num, 'layout) lib \<Rightarrow> request \<Rightarrow> 'layout \<Rightarrow> string \<Rightarrow> card list \<Rightarrow>
   uploaded list \<Rightarrow> 'df chart_cfg option \<Rightarrow> ('layout, 'num) slide \<times> string list" where
  "slide_content L r lay title_str cards_subset imgs_subset chart_cfg =
     (\<lparr>layout = lay,
       shapes = title_shapes r title_str @ grid_shapes (accent_color r) cards_subset @
                fst (chart_block L chart_cfg) @ fst (screenshot_block L imgs_subset),
       notes_text = (if include_speaker_notes r
                     then Some (join newline (notes_lines cards_subset chart_cfg)) else None)\<rparr>,
      snd (chart_block L chart_cfg) @ snd (screenshot_block L imgs_subset))"

subsection \<open>The runs that deliver a deck\<close>

text \<open>The values the handler computes, named for the statements.\<close>

definition layout_idx_of :: "('layout, 'num) presentation \<Rightarrow> nat" where
  "layout_idx_of prs = (if length (slide_layouts prs) > 6 then 6 else 0)"

definition chart_cfg_of ::
  "('df, 'img, 'num, 'layout) lib \<Rightarrow> request \<Rightarrow> 'df chart_cfg option" where
  "chart_cfg_of L r =
     (case chart_mapping L (fst (load_tables L (data_files r))) r of
        (chart_df, xc, yc) \<Rightarrow> make_chart_cfg r chart_df xc yc)"

definition run_texts :: "('df, 'img, 'num, 'layout) lib \<Rightarrow> request \<Rightarrow> string list" where
  "run_texts L r =
     (case split_assets r of
        (cards1, cards2, imgs1, imgs2) \<Rightarrow>
          slide_texts r (title_text r) cards1 (chart_cfg_of L r) @
          (if use_two_slides r then
             slide_texts r (title_text r @ '' (cont.)'') cards2 (None :: 'df chart_cfg option)
           else []))"

definition planned ::
  "('df, 'img, 'num, 'layout) lib \<Rightarrow> request \<Rightarrow> 'layout \<Rightarrow>
   (('layout, 'num) slide \<times> string list) list" where
  "planned L r lay =
     (case split_assets r of
        (cards1, cards2, imgs1, imgs2) \<Rightarrow>
          slide_content L r lay (title_text r) cards1 imgs1 (chart_cfg_of L r) #
          (if use_two_slides r then
             [slide_content L r lay (title_text r @ '' (cont.)'') cards2 imgs2 None]
           else []))"

text \<open>
  The runs that no exception ends: every screenshot can be shown, the template opens
  and has a slide layout, and every text the slides assign is accepted. The chart
  and the embedding of an image do not occur here: their exceptions are caught. The
  mapped table and columns occur only through the chart line of the speaker notes,
  which is a text like the others.
\<close>

definition completes :: "('df, 'img, 'num, 'layout) lib \<Rightarrow> request \<Rightarrow> bool" where
  "completes L r \<longleftrightarrow>
     list_all (\<lambda>f. st_image L f = None) (screenshots r) \<and>
     (case create_presentation L (template_file r) of
        Inl e \<Rightarrow> False
      | Inr prs \<Rightarrow> slide_layouts prs \<noteq> []) \<and>
     first_raise L (run_texts L r) = None"

text \<open>
  For the statements about failures: the parser call \<open>load_table\<close> makes for a file
  (none for a name without a supported extension).
\<close>

definition supported :: "string \<Rightarrow> bool" where
  "supported nm \<longleftrightarrow>
     endswith nm ''.csv'' \<or> endswith nm ''.xlsx'' \<or> endswith nm ''.xls'' \<or> endswith nm ''.json''"

definition parse_attempt ::
  "('df, 'img, 'num, 'layout) lib \<Rightarrow> uploaded \<Rightarrow> (string + 'df) option" where
  "parse_attempt L file =
     (let nm = lower (name file) in
      if endswith nm ''.csv'' then Some (read_csv L (content file))
      else if endswith nm ''.xlsx'' \<or> endswith nm ''.xls'' then Some (read_excel L (content file))
      else if endswith nm ''.json'' then Some (read_json L (content file))
      else None)"

subsection \<open>Concrete inputs\<close>

text \<open>
  A library for the examples: tables, images and layouts are numbers. An empty CSV
  file does not parse, no Excel file does, every table has the columns \<open>month\<close>,
  \<open>rate\<close> and \<open>name\<close> of which the first is the only one with labels and the
  second the only numeric one, a template never opens, an empty image file can
  neither be shown nor opened, a truncated one can be shown but not opened, a string
  holding the noncharacter U+FFFF (the bytes EF BF BF) is not XML compatible, and
  the formatting of a placed chart raises at line 116.
\<close>

fun has_noncharacter :: "string \<Rightarrow> bool" where
  "has_noncharacter (a # b # c # rest) =
     ((a = CHR 0xEF \<and> b = CHR 0xBF \<and> c = CHR 0xBF) \<or> has_noncharacter (b # c # rest))"
| "has_noncharacter s = False"

definition demo_lib :: "(nat, nat, nat, nat) lib" where
  "demo_lib =
     \<lparr>read_csv = (\<lambda>b. if b = [] then Inl ''No columns to parse from file'' else Inr (length b)),
      read_excel = (\<lambda>b. Inl ''Excel file format cannot be determined''),
      read_json = (\<lambda>b. Inr 0),
      columns = (\<lambda>df. [''month'', ''rate'', ''name'']),
      Presentation = (\<lambda>t. case t of
                          None \<Rightarrow> Inr \<lparr>slide_layouts = [0, 1, 2, 3, 4, 5, 6, 7, 8, 9, 10],
                                       slides = []\<rparr>
                        | Some b \<Rightarrow> Inl ''Package not found''),
      st_image = (\<lambda>f. if content f = [] then Some ''cannot identify image file'' else None),
      xml_error = (\<lambda>s. if has_noncharacter s then Some ''All strings must be XML compatible''
                        else None),
      column_str = (\<lambda>df c. if c = ''month'' then Inr [''Jan'', ''Feb''] else Inl ''KeyError''),
      column_float = (\<lambda>df c. if c = ''rate'' then Inr [90, 95]
                              else Inl ''could not convert string to float''),
      shapes_add_chart = (\<lambda>k cats nm vals. None),
      format_chart = (\<lambda>k cats nm vals. Some ''Chart object has no attribute chart_area''),
      image_open = (\<lambda>f. if content f = [] then Inl ''cannot identify image file''
                         else if content f = ''truncated'' then Inl ''image file is truncated''
                         else Inr 1),
      save_png = (\<lambda>i. Inr ''PNG'')\<rparr>"

definition demo_cards :: "card list" where
  "demo_cards =
     map (\<lambda>h. \<lparr>headline = h, value_text = ''90%'', note_text = ''vs last month''\<rparr>)
       [''K1'', ''K2'', ''K3'', ''K4'', ''K5'', ''K6'', ''K7'', ''K8'', ''K9'', ''K10'']"

text \<open>The request with the first \<open>n\<close> demo cards queued, no upload, and \<open>m\<close> slides allowed.\<close>

definition demo_request :: "nat \<Rightarrow> nat \<Rightarrow> request" where
  "demo_request n m =
     \<lparr>template_file = None, data_files = [], screenshots = [],
      title_text = ''Executive KPI Summary'', customer = [], date_range = ''Last 3 months'',
      purpose = ''C-level review'', max_slides = m, accent_color = (23, 104, 172),
      include_speaker_notes = True, enable_auto_crop = True, chart_type = ''bar'',
      df_choice = 0, x_choice = 0, y_choice = 1, cards = take n demo_cards,
      now = ''20240101_0900''\<rparr>"

text \<open>
  Uploads: a CSV file that parses, a text file, an empty CSV file, a JSON file, a
  screenshot, an empty image file and a truncated one. Requests: one with a table
  mapped to a chart and a screenshot, one with the empty image, and one whose title
  holds U+FFFF.
\<close>

definition demo_csv :: uploaded where
  "demo_csv = \<lparr>name = ''kpi.csv'', content = ''month,rate''\<rparr>"

definition demo_txt :: uploaded where
  "demo_txt = \<lparr>name = ''Notes.TXT'', content = ''hello''\<rparr>"

definition demo_empty_csv :: uploaded where
  "demo_empty_csv = \<lparr>name = ''EMPTY.CSV'', content = []\<rparr>"

definition demo_json :: uploaded where
  "demo_json = \<lparr>name = ''more.json'', content = ''[]''\<rparr>"

definition demo_shot :: uploaded where
  "demo_shot = \<lparr>name = ''shot.png'', content = ''pixels''\<rparr>"

definition demo_empty_png :: uploaded where
  "demo_empty_png = \<lparr>name = ''empty.png'', content = []\<rparr>"

definition demo_truncated_png :: uploaded where
  "demo_truncated_png = \<lparr>name = ''cut.png'', content = ''truncated''\<rparr>"

definition demo_chart_request :: request where
  "demo_chart_request =
     (demo_request 2 2)\<lparr>data_files := [demo_csv], screenshots := [demo_shot]\<rparr>"

definition demo_preview_request :: request where
  "demo_preview_request = (demo_request 2 2)\<lparr>screenshots := [demo_empty_png]\<rparr>"

definition demo_title_request :: request where
  "demo_title_request =
     (demo_request 1 1)\<lparr>title_text := ''KPI '' @ [CHR 0xEF, CHR 0xBF, CHR 0xBF]\<rparr>"

section \<open>Properties\<close>

subsection \<open>The card queue\<close>

text \<open>Each press of the add-card button makes the queue one card longer.\<close>

lemma length_add_card: "length (add_card session_cards hl val nt) = Suc (length session_cards)"
  by (simp add: add_card_def)

subsection \<open>Text assignments: what a slide builder returns\<close>

text \<open>
  Each builder returns the exception of the first assignment that raises, or else
  the shapes of the pure description.
\<close>

lemma and_then_Inr [simp]: "and_then (Inr x) f = f x"
  by (simp add: and_then_def)

lemma and_then_Inl [simp]: "and_then (Inl e) f = Inl e"
  by (simp add: and_then_def)

lemma first_raise_append:
  "first_raise L (xs @ ys) =
     (case first_raise L xs of Some e \<Rightarrow> Some e | None \<Rightarrow> first_raise L ys)"
  by (induction xs) (simp_all split: option.splits)

lemma add_textbox_eq:
  "add_textbox L t None False fsize bold =
     (case xml_error L t of Some e \<Rightarrow> Inl (Raised e) | None \<Rightarrow> Inr (one_para t fsize bold))"
  by (simp add: add_textbox_def set_text_def one_para_def split: option.splits)

lemma add_kpi_card_eq:
  "add_kpi_card L l t w h hl v n acc =
     (case first_raise L ([hl, v] @ (if n \<noteq> [] then [n] else [])) of
        Some e \<Rightarrow> Inl (Raised e)
      | None \<Rightarrow> Inr (kpi_card_shapes l t w h hl v n acc))"
  by (simp add: add_kpi_card_def add_textbox_eq kpi_card_shapes_def split: option.splits)

lemma place_cards_eq:
  "place_cards L acc ics =
     (case first_raise L (concat (map (\<lambda>(idx, c). card_texts c) ics)) of
        Some e \<Rightarrow> Inl (Raised e)
      | None \<Rightarrow> Inr (placed_cards acc ics))"
proof (induction ics)
  case Nil
  show ?case by (simp add: placed_cards_def)
next
  case (Cons ic ics)
  obtain idx c where ic: "ic = (idx, c)" by (cases ic)
  show ?case
    using Cons.IH
    by (simp add: ic add_kpi_card_eq card_texts_def first_raise_append placed_cards_def
        split: option.splits)
qed

lemma map_enumerate_snd: "map (\<lambda>(i, c). g c) (enumerate n xs) = map g xs"
  by (induction xs arbitrary: n) simp_all

lemma card_grid_eq:
  "card_grid L acc cs =
     (case first_raise L (concat (map card_texts (take 4 cs))) of
        Some e \<Rightarrow> Inl (Raised e)
      | None \<Rightarrow> Inr (grid_shapes acc cs))"
  by (simp add: card_grid_def place_cards_eq map_enumerate_snd grid_shapes_def
      split: option.splits)

lemma title_block_eq:
  "title_block L r t =
     (case first_raise L [t, subtitle_text r] of
        Some e \<Rightarrow> Inl (Raised e)
      | None \<Rightarrow> Inr (title_shapes r t))"
  by (simp add: title_block_def add_textbox_eq title_shapes_def split: option.splits)

lemma notes_block_eq:
  "notes_block L r cs cfg =
     (case first_raise L (if include_speaker_notes r then [join newline (notes_lines cs cfg)]
                          else []) of
        Some e \<Rightarrow> Inl (Raised e)
      | None \<Rightarrow> Inr (if include_speaker_notes r
                      then Some (join newline (notes_lines cs cfg)) else None))"
  by (simp add: notes_block_def add_speaker_notes_def set_text_def split: option.splits)

lemma slide_body_eq:
  "slide_body L r lay t cs imgs cfg =
     (case first_raise L (slide_texts r t cs cfg) of
        Some e \<Rightarrow> Inl (Raised e)
      | None \<Rightarrow> Inr (slide_content L r lay t cs imgs cfg))"
  by (simp add: slide_body_def slide_texts_def title_block_eq card_grid_eq notes_block_eq
      first_raise_append slide_content_def split_beta split: option.splits)


subsection \<open>Counting shapes\<close>

lemma rect_kpi_card_shapes:
  "length (filter is_card_rectangle (kpi_card_shapes l t w h a b c acc)) = 1"
  by (simp add: kpi_card_shapes_def one_para_def)

lemma pic_kpi_card_shapes: "filter is_picture (kpi_card_shapes l t w h a b c acc) = []"
  by (simp add: kpi_card_shapes_def)

lemma rect_concat_map:
  "(\<And>y. y \<in> set ys \<Longrightarrow> length (filter is_card_rectangle (f y)) = 1) \<Longrightarrow>
   length (filter is_card_rectangle (concat (map f ys))) = length ys"
  by (induction ys) auto

lemma rect_grid_shapes:
  "length (filter is_card_rectangle (grid_shapes acc cs)) = min 4 (length cs)"
  unfolding grid_shapes_def placed_cards_def
  by (subst rect_concat_map) (auto simp: rect_kpi_card_shapes min.commute)

lemma pic_grid_shapes: "filter is_picture (grid_shapes acc cs) = []"
  unfolding grid_shapes_def placed_cards_def
  by (auto simp: filter_concat pic_kpi_card_shapes)

lemma rect_title_shapes: "filter is_card_rectangle (title_shapes r t) = []"
  by (simp add: title_shapes_def)

lemma pic_title_shapes: "filter is_picture (title_shapes r t) = []"
  by (simp add: title_shapes_def)

lemma rect_chart_block: "filter is_card_rectangle (fst (chart_block L cfg)) = []"
  by (auto simp: chart_block_def add_chart_def Let_def split: option.splits sum.splits prod.splits)

lemma pic_chart_block: "filter is_picture (fst (chart_block L cfg)) = []"
  by (auto simp: chart_block_def add_chart_def Let_def split: option.splits sum.splits prod.splits)

lemma rect_embed: "filter is_card_rectangle (fst (embed_image L img)) = []"
  by (auto simp: embed_image_def add_screenshot_def split: sum.splits)

lemma rect_screenshot_block: "filter is_card_rectangle (fst (screenshot_block L imgs)) = []"
  by (cases imgs) (auto simp: screenshot_block_def Let_def rect_embed)

lemma pic_embed: "length (filter is_picture (fst (embed_image L img))) \<le> 1"
  by (auto simp: embed_image_def add_screenshot_def split: sum.splits)

lemma pic_screenshot_block: "length (filter is_picture (fst (screenshot_block L imgs))) \<le> 1"
  using pic_embed [of L "hd imgs"] by (cases imgs) (auto simp: screenshot_block_def Let_def)

lemma card_visuals_slide_content:
  "card_visuals (fst (slide_content L r lay t cs imgs cfg)) = min 4 (length cs)"
  by (simp add: slide_content_def card_visuals_def rect_title_shapes rect_grid_shapes
      rect_chart_block rect_screenshot_block)

lemma pictures_slide_content:
  "pictures (fst (slide_content L r lay t cs imgs cfg)) \<le> 1"
  using pic_screenshot_block [of L imgs]
  by (simp add: slide_content_def pictures_def pic_title_shapes pic_grid_shapes pic_chart_block)

lemma headlines_kpi_card_shapes:
  "concat (map headline_text (kpi_card_shapes l t w h hl v n acc)) = [hl]"
  by (simp add: kpi_card_shapes_def one_para_def)

lemma concat_map_concat:
  "concat (map h (concat (map f ys))) = concat (map (\<lambda>y. concat (map h (f y))) ys)"
  by (induction ys) simp_all

lemma headlines_grid_shapes:
  "concat (map headline_text (grid_shapes acc cs)) = map headline (take 4 cs)"
proof -
  have "concat (map headline_text (grid_shapes acc cs)) =
        concat (map (\<lambda>(i, c). [headline c]) (enumerate 0 (take 4 cs)))"
    by (simp add: grid_shapes_def placed_cards_def concat_map_concat headlines_kpi_card_shapes
        split_def)
  also have "\<dots> = concat (map (\<lambda>c. [headline c]) (take 4 cs))"
    by (simp add: map_enumerate_snd)
  finally show ?thesis by simp
qed

lemma headlines_title_shapes: "concat (map headline_text (title_shapes r t)) = []"
  by (simp add: title_shapes_def one_para_def)

lemma headlines_chart_block: "concat (map headline_text (fst (chart_block L cfg))) = []"
  by (auto simp: chart_block_def add_chart_def Let_def split: option.splits sum.splits prod.splits)

lemma headlines_screenshot_block:
  "concat (map headline_text (fst (screenshot_block L imgs))) = []"
  by (cases imgs)
    (auto simp: screenshot_block_def embed_image_def add_screenshot_def Let_def
      split: sum.splits)

lemma card_headlines_slide_content:
  "card_headlines (fst (slide_content L r lay t cs imgs cfg)) = map headline (take 4 cs)"
  by (simp add: card_headlines_def slide_content_def headlines_title_shapes
      headlines_grid_shapes headlines_chart_block headlines_screenshot_block)

subsection \<open>Truncation by slicing\<close>

lemma notes_lines_take: "notes_lines (take 4 cs) cfg = notes_lines cs cfg"
  by (simp add: notes_lines_def)

lemma grid_shapes_take: "grid_shapes acc (take 4 cs) = grid_shapes acc cs"
  by (simp add: grid_shapes_def)

lemma screenshot_block_take: "screenshot_block L (take 1 imgs) = screenshot_block L imgs"
  by (simp add: screenshot_block_def)

lemma slide_texts_take: "slide_texts r t (take 4 cs) cfg = slide_texts r t cs cfg"
  by (simp add: slide_texts_def notes_lines_take)

lemma slide_content_take:
  "slide_content L r lay t (take 4 cs) (take 1 imgs) cfg = slide_content L r lay t cs imgs cfg"
  by (simp only: slide_content_def grid_shapes_take notes_lines_take screenshot_block_take)

lemma slide_content_take_cards:
  "slide_content L r lay t (take 4 cs) imgs cfg = slide_content L r lay t cs imgs cfg"
  by (simp only: slide_content_def grid_shapes_take notes_lines_take)

lemma slide_body_take:
  "slide_body L r lay t (take 4 cs) (take 1 imgs) cfg = slide_body L r lay t cs imgs cfg"
  by (simp only: slide_body_eq slide_texts_take slide_content_take)

lemma slide_body_take_cards:
  "slide_body L r lay t (take 4 cs) imgs cfg = slide_body L r lay t cs imgs cfg"
  by (simp only: slide_body_eq slide_texts_take slide_content_take_cards)


subsection \<open>What a run delivers\<close>

lemma preview_Inr_iff: "preview L fs = Inr u \<longleftrightarrow> list_all (\<lambda>f. st_image L f = None) fs"
  by (induction fs) (simp_all split: option.splits)

lemma build_slide_eq:
  "build_slide L r li t cs imgs cfg (prs, ws) =
     (if li < length (slide_layouts prs) then
        (case first_raise L (slide_texts r t cs cfg) of
           Some e \<Rightarrow> Inl (Raised e)
         | None \<Rightarrow>
             Inr (prs\<lparr>slides := slides prs @
                          [fst (slide_content L r (slide_layouts prs ! li) t cs imgs cfg)]\<rparr>,
                  ws @ snd (slide_content L r (slide_layouts prs ! li) t cs imgs cfg)))
      else Inl IndexError)"
  by (simp add: build_slide_def slide_body_eq split_beta split: option.splits)

lemma layout_idx_of_less:
  "slide_layouts prs \<noteq> [] \<Longrightarrow> layout_idx_of prs < length (slide_layouts prs)"
  by (simp add: layout_idx_of_def)

lemma generate_unfold:
  "generate L r =
     and_then (preview L (screenshots r)) (\<lambda>shown.
       case create_presentation L (template_file r) of
         Inl e \<Rightarrow> Inl (Raised e)
       | Inr prs \<Rightarrow>
           and_then
             (build_slide L r (layout_idx_of prs) (title_text r) (fst (split_assets r))
                (fst (snd (snd (split_assets r)))) (chart_cfg_of L r)
                (prs, snd (load_tables L (data_files r))))
             (\<lambda>st1.
                and_then
                  (if use_two_slides r then
                     build_slide L r (layout_idx_of prs) (title_text r @ '' (cont.)'')
                       (fst (snd (split_assets r))) (snd (snd (snd (split_assets r)))) None st1
                   else Inr st1)
                  (\<lambda>st2. Inr \<lparr>deck = fst st2, warnings = snd st2,
                              file_name = ''EBR_KPI_Deck_'' @ now r @ ''.pptx''\<rparr>)))"
  by (simp add: generate_def chart_cfg_of_def layout_idx_of_def split_beta Let_def
      case_prod_unfold cong: sum.case_cong if_cong)

lemma generate_Inr:
  fixes L :: "('df, 'img, 'num, 'layout) lib"
  assumes c: "completes L r"
    and p: "create_presentation L (template_file r) = Inr prs"
  shows "generate L r =
     Inr \<lparr>deck = prs\<lparr>slides := slides prs @
                      map fst (planned L r (slide_layouts prs ! layout_idx_of prs))\<rparr>,
          warnings = snd (load_tables L (data_files r)) @
                     concat (map snd (planned L r (slide_layouts prs ! layout_idx_of prs))),
          file_name = ''EBR_KPI_Deck_'' @ now r @ ''.pptx''\<rparr>"
proof -
  from c have pv: "preview L (screenshots r) = Inr ()"
    by (simp add: completes_def preview_Inr_iff)
  from c p have lay: "layout_idx_of prs < length (slide_layouts prs)"
    by (simp add: completes_def layout_idx_of_less)
  from c have tx: "first_raise L (run_texts L r) = None"
    by (simp add: completes_def)
  then have t1: "first_raise L (slide_texts r (title_text r) (fst (split_assets r))
                    (chart_cfg_of L r)) = None"
    by (simp add: run_texts_def split_beta first_raise_append split: option.splits)
  have t2: "first_raise L (slide_texts r (title_text r @ '' (cont.)'')
               (fst (snd (split_assets r))) (None :: 'df chart_cfg option)) = None"
    if "use_two_slides r"
    using tx that by (simp add: run_texts_def split_beta first_raise_append split: option.splits)
  show ?thesis
    using t2
    by (simp add: generate_unfold pv p build_slide_eq lay t1 planned_def split_beta)
qed

lemma generate_Inr_completes:
  fixes L :: "('df, 'img, 'num, 'layout) lib"
  assumes g: "generate L r = Inr d"
  shows "completes L r"
proof -
  from g obtain u where pv: "preview L (screenshots r) = Inr u"
    by (cases "preview L (screenshots r)") (simp_all add: generate_unfold)
  from g pv obtain prs where p: "create_presentation L (template_file r) = Inr prs"
    by (cases "create_presentation L (template_file r)") (simp_all add: generate_unfold)
  from g pv p obtain st1 where
    b1: "build_slide L r (layout_idx_of prs) (title_text r) (fst (split_assets r))
           (fst (snd (snd (split_assets r)))) (chart_cfg_of L r)
           (prs, snd (load_tables L (data_files r))) = Inr st1"
    by (simp add: generate_unfold and_then_def split: sum.splits)
  from b1 have lay: "layout_idx_of prs < length (slide_layouts prs)"
    and t1: "first_raise L (slide_texts r (title_text r) (fst (split_assets r))
                    (chart_cfg_of L r)) = None"
    by (auto simp: build_slide_eq split: if_splits option.splits)
  have t2: "first_raise L (slide_texts r (title_text r @ '' (cont.)'')
               (fst (snd (split_assets r))) (None :: 'df chart_cfg option)) = None"
    if u2: "use_two_slides r"
  proof -
    from g pv p b1 u2 obtain st2 where
      "build_slide L r (layout_idx_of prs) (title_text r @ '' (cont.)'')
         (fst (snd (split_assets r))) (snd (snd (snd (split_assets r)))) None st1 = Inr st2"
      by (simp add: generate_unfold and_then_def split: sum.splits)
    then show ?thesis
      by (cases st1) (auto simp: build_slide_eq split: if_splits option.splits)
  qed
  from lay have "slide_layouts prs \<noteq> []" by auto
  with pv p t1 t2 show ?thesis
    by (simp add: completes_def preview_Inr_iff run_texts_def split_beta first_raise_append)
qed


subsection \<open>The examples complete\<close>

lemma demo_lib_fields [simp]:
  "xml_error demo_lib s =
     (if has_noncharacter s then Some ''All strings must be XML compatible'' else None)"
  "st_image demo_lib f = (if content f = [] then Some ''cannot identify image file'' else None)"
  "columns demo_lib df = [''month'', ''rate'', ''name'']"
  "create_presentation demo_lib None =
     Inr \<lparr>slide_layouts = [0, 1, 2, 3, 4, 5, 6, 7, 8, 9, 10], slides = []\<rparr>"
  by (simp_all add: demo_lib_def create_presentation_def)

lemma demo_fields [simp]:
  "cards (demo_request n m) = take n demo_cards"
  "screenshots (demo_request n m) = []"
  "data_files (demo_request n m) = []"
  "max_slides (demo_request n m) = m"
  "template_file (demo_request n m) = None"
  "title_text (demo_request n m) = ''Executive KPI Summary''"
  "include_speaker_notes (demo_request n m)"
  by (simp_all add: demo_request_def)

lemma length_demo_cards [simp]: "length demo_cards = 10"
  by (simp add: demo_cards_def)

lemma demo_more_fields [simp]:
  "customer (demo_request n m) = []"
  "date_range (demo_request n m) = ''Last 3 months''"
  "purpose (demo_request n m) = ''C-level review''"
  "accent_color (demo_request n m) = (23, 104, 172)"
  by (simp_all add: demo_request_def)

lemma has_noncharacter_EF: "has_noncharacter s \<Longrightarrow> CHR 0xEF \<in> set s"
  by (induction s rule: has_noncharacter.induct) auto

lemma set_join: "set (join sep xs) \<subseteq> set sep \<union> (\<Union>x\<in>set xs. set x)"
  by (induction sep xs rule: join.induct) auto

lemma first_raise_None:
  "(\<And>s. s \<in> set xs \<Longrightarrow> xml_error L s = None) \<Longrightarrow> first_raise L xs = None"
  by (induction xs) simp_all

lemma demo_card_clean:
  assumes "c \<in> set demo_cards"
  shows "CHR 0xEF \<notin> set (headline c) \<and> CHR 0xEF \<notin> set (value_text c) \<and>
         CHR 0xEF \<notin> set (note_text c)"
  using assms by (auto simp: demo_cards_def)

lemma demo_chart_cfg_None [simp]: "chart_cfg_of demo_lib (demo_request n m) = None"
  by (simp add: chart_cfg_of_def chart_mapping_def make_chart_cfg_def)

lemma demo_notes_clean:
  assumes "set cs \<subseteq> set demo_cards"
  shows "CHR 0xEF \<notin> set (join newline (notes_lines cs (None :: nat chart_cfg option)))"
proof
  assume "CHR 0xEF \<in> set (join newline (notes_lines cs (None :: nat chart_cfg option)))"
  with set_join [of newline "notes_lines cs (None :: nat chart_cfg option)"]
  obtain ln where ln: "ln \<in> set (notes_lines cs (None :: nat chart_cfg option))"
    and e: "CHR 0xEF \<in> set ln"
    by (auto simp: newline_def)
  from ln obtain c where c: "c \<in> set cs"
    and l: "ln = ''- '' @ headline c @ '': '' @ value_text c @ '' '' @ em_dash @ '' '' @
                 note_text c"
    by (auto simp: notes_lines_def dest: in_set_takeD)
  from c assms have "c \<in> set demo_cards" by auto
  with demo_card_clean [of c] e l show False
    by (auto simp: em_dash_def)
qed

lemma demo_slide_texts_clean:
  assumes cs: "set cs \<subseteq> set demo_cards"
    and t: "CHR 0xEF \<notin> set t"
    and s: "s \<in> set (slide_texts (demo_request n m) t cs (None :: nat chart_cfg option))"
  shows "CHR 0xEF \<notin> set s"
proof -
  from s consider "s = t" | "s = subtitle_text (demo_request n m)"
    | c where "c \<in> set cs" "s \<in> set (card_texts c)"
    | "s = join newline (notes_lines cs (None :: nat chart_cfg option))"
    by (auto simp: slide_texts_def dest: in_set_takeD split: if_splits)
  then show ?thesis
  proof cases
    case 1
    with t show ?thesis by simp
  next
    case 2
    then show ?thesis by (simp add: subtitle_text_def bullet_def)
  next
    case 3
    with cs demo_card_clean [of c] show ?thesis
      by (auto simp: card_texts_def split: if_splits)
  next
    case 4
    with demo_notes_clean [OF cs] show ?thesis by simp
  qed
qed

lemma demo_completes [simp]: "completes demo_lib (demo_request n m)"
proof -
  have sub: "set (fst (split_assets (demo_request n m))) \<subseteq> set demo_cards"
    "set (fst (snd (split_assets (demo_request n m)))) \<subseteq> set demo_cards"
    by (auto simp: split_assets_def dest: in_set_takeD in_set_dropD)
  have "CHR 0xEF \<notin> set s" if "s \<in> set (run_texts demo_lib (demo_request n m))" for s
    using that demo_slide_texts_clean [OF sub(1), of "''Executive KPI Summary''" s n m]
      demo_slide_texts_clean [OF sub(2), of "''Executive KPI Summary (cont.)''" s n m]
    by (auto simp: run_texts_def split_beta split: if_splits)
  then have "first_raise demo_lib (run_texts demo_lib (demo_request n m)) = None"
    by (intro first_raise_None) (auto dest: has_noncharacter_EF)
  then show ?thesis
    by (simp add: completes_def)
qed


subsection \<open>The slides of a completing run\<close>

lemma completesE:
  assumes "completes L r"
  obtains prs where "create_presentation L (template_file r) = Inr prs"
  using assms by (auto simp: completes_def split: sum.splits)

lemma produced_slides_eq:
  assumes c: "completes L r"
    and p: "create_presentation L (template_file r) = Inr prs"
  shows "produced_slides L r = map fst (planned L r (slide_layouts prs ! layout_idx_of prs))"
  by (simp add: produced_slides_def template_slides_def generate_Inr [OF c p] p)

lemma generate_delivers:
  assumes c: "completes L r"
  shows "\<exists>d. generate L r = Inr d \<and> slides (deck d) = template_slides L r @ produced_slides L r"
proof -
  from c obtain prs where p: "create_presentation L (template_file r) = Inr prs"
    by (rule completesE)
  show ?thesis
    by (simp add: generate_Inr [OF c p] produced_slides_def template_slides_def p)
qed

lemma generate_iff_completes: "(\<exists>d. generate L r = Inr d) \<longleftrightarrow> completes L r"
  using generate_delivers [of L r] generate_Inr_completes [of L r] by blast

lemma produced_one:
  assumes c: "completes L r" and p: "create_presentation L (template_file r) = Inr prs"
    and u: "\<not> use_two_slides r"
  shows "produced_slides L r =
           [fst (slide_content L r (slide_layouts prs ! layout_idx_of prs) (title_text r)
                   (cards r) (screenshots r) (chart_cfg_of L r))]"
  using u by (simp add: produced_slides_eq [OF c p] planned_def split_assets_def)

lemma produced_two:
  assumes c: "completes L r" and p: "create_presentation L (template_file r) = Inr prs"
    and u: "use_two_slides r"
  shows "produced_slides L r =
           [fst (slide_content L r (slide_layouts prs ! layout_idx_of prs) (title_text r)
                   (take (half_cards r) (cards r)) (take (half_imgs r) (screenshots r))
                   (chart_cfg_of L r)),
            fst (slide_content L r (slide_layouts prs ! layout_idx_of prs)
                   (title_text r @ '' (cont.)'')
                   (drop (half_cards r) (cards r)) (drop (half_imgs r) (screenshots r)) None)]"
  using u by (simp add: produced_slides_eq [OF c p] planned_def split_assets_def)

lemma length_produced_slides:
  assumes "completes L r"
  shows "length (produced_slides L r) = (if use_two_slides r then 2 else 1)"
proof -
  from assms obtain prs where p: "create_presentation L (template_file r) = Inr prs"
    by (rule completesE)
  show ?thesis
    by (simp add: produced_slides_eq [OF assms p] planned_def split: prod.splits)
qed

lemma two_slides_iff:
  "length (produced_slides L r) = 2 \<longleftrightarrow> completes L r \<and> use_two_slides r"
proof (cases "generate L r")
  case (Inl e)
  then have "\<not> completes L r"
    using generate_delivers [of L r] by auto
  with Inl show ?thesis by (simp add: produced_slides_def)
next
  case (Inr d)
  then have "completes L r" by (rule generate_Inr_completes)
  then show ?thesis by (simp add: length_produced_slides)
qed

lemma slide_body_Inr:
  assumes "completes L r"
  shows "slide_body L r lay (title_text r) (fst (split_assets r))
           (fst (snd (snd (split_assets r)))) (chart_cfg_of L r) =
         Inr (slide_content L r lay (title_text r) (fst (split_assets r))
           (fst (snd (snd (split_assets r)))) (chart_cfg_of L r))"
    and "use_two_slides r \<Longrightarrow>
         slide_body L r lay (title_text r @ '' (cont.)'') (fst (snd (split_assets r)))
           (snd (snd (snd (split_assets r)))) None =
         Inr (slide_content L r lay (title_text r @ '' (cont.)'') (fst (snd (split_assets r)))
           (snd (snd (snd (split_assets r)))) None)"
  using assms
  by (simp_all add: slide_body_eq completes_def run_texts_def split_beta first_raise_append
      split: option.splits)

lemma build_slide_take_cards:
  "build_slide L r li t (take 4 cs) imgs cfg st = build_slide L r li t cs imgs cfg st"
  by (cases st) (simp add: build_slide_def slide_body_take_cards)

lemma subtitle_text_cards: "subtitle_text (r\<lparr>cards := xs\<rparr>) = subtitle_text r"
  by (simp add: subtitle_text_def)

lemma slide_texts_cards: "slide_texts (r\<lparr>cards := xs\<rparr>) t cs cfg = slide_texts r t cs cfg"
  by (simp add: slide_texts_def subtitle_text_cards)

lemma slide_content_cards:
  "slide_content L (r\<lparr>cards := xs\<rparr>) lay t cs imgs cfg = slide_content L r lay t cs imgs cfg"
  by (simp add: slide_content_def title_shapes_def subtitle_text_cards)

lemma slide_body_cards:
  "slide_body L (r\<lparr>cards := xs\<rparr>) lay t cs imgs cfg = slide_body L r lay t cs imgs cfg"
  by (simp only: slide_body_eq slide_texts_cards slide_content_cards)

lemma build_slide_cards:
  "build_slide L (r\<lparr>cards := xs\<rparr>) li t cs imgs cfg st = build_slide L r li t cs imgs cfg st"
  by (cases st) (simp add: build_slide_def slide_body_cards)

lemma chart_cfg_of_cards: "chart_cfg_of L (r\<lparr>cards := xs\<rparr>) = chart_cfg_of L r"
  by (simp add: chart_cfg_of_def chart_mapping_def make_chart_cfg_def Let_def
      split: option.splits)

lemma generate_same_slides:
  assumes u: "use_two_slides r' = use_two_slides r"
    and o: "screenshots r' = screenshots r" "template_file r' = template_file r"
      "data_files r' = data_files r" "title_text r' = title_text r" "now r' = now r"
    and c: "chart_cfg_of L r' = chart_cfg_of L r"
    and b1: "\<And>li st. build_slide L r' li (title_text r) (fst (split_assets r'))
               (fst (snd (snd (split_assets r')))) (chart_cfg_of L r) st =
             build_slide L r li (title_text r) (fst (split_assets r))
               (fst (snd (snd (split_assets r)))) (chart_cfg_of L r) st"
    and b2: "\<And>li st. use_two_slides r \<Longrightarrow>
             build_slide L r' li (title_text r @ '' (cont.)'') (fst (snd (split_assets r')))
               (snd (snd (snd (split_assets r')))) None st =
             build_slide L r li (title_text r @ '' (cont.)'') (fst (snd (split_assets r)))
               (snd (snd (snd (split_assets r)))) None st"
  shows "generate L r' = generate L r"
  by (simp add: generate_unfold u o c b1 b2 cong: sum.case_cong if_cong)

subsection \<open>One slide or two\<close>







text \<open>
  C5. Every slide a run produces has at most 4 card visuals and at most one image.
  The bound is the slicing inside the slide builder: building a slide from the
  subsets it is passed is building it from their first four cards and first image.
\<close>

theorem slide_limits:
  "(\<forall>s \<in> set (produced_slides L r). card_visuals s \<le> 4 \<and> pictures s \<le> 1) \<and>
   slide_body L r lay t cs imgs cfg = slide_body L r lay t (take 4 cs) (take 1 imgs) cfg"
proof (cases "generate L r")
  case (Inl e)
  then show ?thesis
    using slide_body_take [of L r lay t cs imgs cfg] by (simp add: produced_slides_def)
next
  case (Inr d)
  then have c: "completes L r" by (rule generate_Inr_completes)
  then obtain prs where p: "create_presentation L (template_file r) = Inr prs"
    by (rule completesE)
  have "card_visuals (fst x) \<le> 4 \<and> pictures (fst x) \<le> 1"
    if "x \<in> set (planned L r lay)" for x lay
    using that pictures_slide_content [of L r lay]
    by (auto simp: planned_def card_visuals_slide_content split: prod.splits if_splits)
  then show ?thesis
    using slide_body_take [of L r lay t cs imgs cfg] by (auto simp: produced_slides_eq [OF c p])
qed

theorem slide_limits_witness:
  "length (produced_slides demo_lib (demo_request 10 2)) = 2 \<and>
   card_visuals (produced_slides demo_lib (demo_request 10 2) ! 0) \<le> 4 \<and>
   pictures (produced_slides demo_lib (demo_request 10 2) ! 0) \<le> 1 \<and>
   card_visuals (produced_slides demo_lib (demo_request 10 2) ! 1) \<le> 4 \<and>
   pictures (produced_slides demo_lib (demo_request 10 2) ! 1) \<le> 1"
proof -
  have n: "length (produced_slides demo_lib (demo_request 10 2)) = 2"
    by (simp add: length_produced_slides use_two_slides_def)
  then have "produced_slides demo_lib (demo_request 10 2) ! 0 \<in>
               set (produced_slides demo_lib (demo_request 10 2))"
    and "produced_slides demo_lib (demo_request 10 2) ! 1 \<in>
               set (produced_slides demo_lib (demo_request 10 2))"
    by simp_all
  with n slide_limits [of demo_lib "demo_request 10 2"] show ?thesis
    by blast
qed

subsection \<open>The split across two slides\<close>

lemma produced_two_demo:
  "use_two_slides (demo_request n m) \<Longrightarrow>
   produced_slides demo_lib (demo_request n m) =
     [fst (slide_content demo_lib (demo_request n m) 6 ''Executive KPI Summary''
             (take (half_cards (demo_request n m)) (take n demo_cards)) [] None),
      fst (slide_content demo_lib (demo_request n m) 6 ''Executive KPI Summary (cont.)''
             (drop (half_cards (demo_request n m)) (take n demo_cards)) [] None)]"
  using produced_two [of demo_lib "demo_request n m", OF demo_completes]
  by (simp add: layout_idx_of_def)

text \<open>
  C4, as stated, fails: with five queued cards, no image and two slides allowed, two
  slides are produced, and the card queue is cut into a prefix of four and a suffix
  of one, which differ by three.
\<close>

theorem halves_counterexample:
  "length (produced_slides demo_lib (demo_request 5 2)) = 2 \<and>
   length (fst (split_assets (demo_request 5 2))) = 4 \<and>
   length (fst (snd (split_assets (demo_request 5 2)))) = 1 \<and>
   map card_visuals (produced_slides demo_lib (demo_request 5 2)) = [4, 1] \<and>
   \<not> length (fst (split_assets (demo_request 5 2))) \<le>
       length (fst (snd (split_assets (demo_request 5 2)))) + 1"
proof -
  have u: "use_two_slides (demo_request 5 2)"
    by (simp add: use_two_slides_def)
  then show ?thesis
    by (simp add: produced_two_demo card_visuals_slide_content split_assets_def half_cards_def)
qed

text \<open>
  C4, amended. Whenever two slides are produced, the first is built from the prefix
  of length \<open>half_cards\<close> of the queue and the prefix of length \<open>half_imgs\<close> of
  the images, the second from the two remaining suffixes. The image prefix has
  ceil(M/2) of the M images, so the image parts differ by at most one. The card
  prefix has max(4, ceil(N/2)) of the N cards (all of them when there are fewer), so
  the card parts differ by at most one exactly when N is at most 1 or at least 7.
\<close>

theorem split_is_prefix_and_suffix:
  assumes two: "length (produced_slides L r) = 2"
  shows "(\<exists>lay s1 w1 s2 w2.
            slide_body L r lay (title_text r)
              (take (half_cards r) (cards r)) (take (half_imgs r) (screenshots r))
              (chart_cfg_of L r) = Inr (s1, w1) \<and>
            slide_body L r lay (title_text r @ '' (cont.)'')
              (drop (half_cards r) (cards r)) (drop (half_imgs r) (screenshots r)) None =
              Inr (s2, w2) \<and>
            produced_slides L r = [s1, s2]) \<and>
         length (take (half_imgs r) (screenshots r)) = (length (screenshots r) + 1) div 2 \<and>
         length (drop (half_imgs r) (screenshots r)) = length (screenshots r) div 2 \<and>
         length (take (half_cards r) (cards r)) =
           min (length (cards r)) (max 4 ((length (cards r) + 1) div 2)) \<and>
         length (drop (half_cards r) (cards r)) =
           length (cards r) - max 4 ((length (cards r) + 1) div 2) \<and>
         (length (take (half_cards r) (cards r)) \<le> length (drop (half_cards r) (cards r)) + 1
            \<longleftrightarrow> length (cards r) \<le> 1 \<or> 7 \<le> length (cards r))"
proof -
  from two have c: "completes L r" and u: "use_two_slides r"
    by (simp_all add: two_slides_iff)
  from c obtain prs where p: "create_presentation L (template_file r) = Inr prs"
    by (rule completesE)
  let ?lay = "slide_layouts prs ! layout_idx_of prs"
  have sp: "split_assets r =
      (take (half_cards r) (cards r), drop (half_cards r) (cards r),
       take (half_imgs r) (screenshots r), drop (half_imgs r) (screenshots r))"
    using u by (simp add: split_assets_def)
  have "\<exists>lay s1 w1 s2 w2.
            slide_body L r lay (title_text r)
              (take (half_cards r) (cards r)) (take (half_imgs r) (screenshots r))
              (chart_cfg_of L r) = Inr (s1, w1) \<and>
            slide_body L r lay (title_text r @ '' (cont.)'')
              (drop (half_cards r) (cards r)) (drop (half_imgs r) (screenshots r)) None =
              Inr (s2, w2) \<and>
            produced_slides L r = [s1, s2]"
    using slide_body_Inr(1) [OF c, of ?lay] slide_body_Inr(2) [OF c u, of ?lay]
    by (intro exI [of _ ?lay])
      (auto simp: sp produced_two [OF c p u] intro!: exI prod_eqI)
  moreover have "length (take (half_imgs r) (screenshots r)) = (length (screenshots r) + 1) div 2"
    by (simp add: half_imgs_def)
  moreover have "length (drop (half_imgs r) (screenshots r)) = length (screenshots r) div 2"
    unfolding half_imgs_def length_drop by arith
  moreover have "length (take (half_cards r) (cards r)) =
           min (length (cards r)) (max 4 ((length (cards r) + 1) div 2))"
    and "length (drop (half_cards r) (cards r)) =
           length (cards r) - max 4 ((length (cards r) + 1) div 2)"
    by (simp_all add: half_cards_def)
  moreover have "length (take (half_cards r) (cards r)) \<le> length (drop (half_cards r) (cards r)) + 1
            \<longleftrightarrow> length (cards r) \<le> 1 \<or> 7 \<le> length (cards r)"
    unfolding half_cards_def length_drop length_take by arith
  ultimately show ?thesis by blast
qed

theorem split_is_prefix_and_suffix_witness:
  "length (produced_slides demo_lib (demo_request 7 2)) = 2 \<and>
   length (take (half_cards (demo_request 7 2)) (cards (demo_request 7 2))) = 4 \<and>
   length (drop (half_cards (demo_request 7 2)) (cards (demo_request 7 2))) = 3"
proof -
  have two: "length (produced_slides demo_lib (demo_request 7 2)) = 2"
    by (simp add: length_produced_slides use_two_slides_def)
  from split_is_prefix_and_suffix [OF two] two show ?thesis
    by simp
qed

subsection \<open>Which cards are dropped\<close>

lemma sum_visuals_le:
  "sum_list (map card_visuals (produced_slides L r)) \<le> 8"
proof (cases "generate L r")
  case (Inl e)
  then show ?thesis by (simp add: produced_slides_def)
next
  case (Inr d)
  then have c: "completes L r" by (rule generate_Inr_completes)
  then obtain prs where p: "create_presentation L (template_file r) = Inr prs"
    by (rule completesE)
  show ?thesis
    by (cases "use_two_slides r")
      (simp_all add: produced_two [OF c p] produced_one [OF c p] card_visuals_slide_content)
qed

text \<open>
  C10, as stated, fails: with ten queued cards and two slides allowed, the slides
  show the cards 1 to 4 and 6 to 9. The fifth card is dropped from the middle of the
  queue, and the tenth from its end.
\<close>

theorem dropped_cards_counterexample:
  "map card_headlines (produced_slides demo_lib (demo_request 10 2)) =
     [[''K1'', ''K2'', ''K3'', ''K4''], [''K6'', ''K7'', ''K8'', ''K9'']] \<and>
   headline (last (cards (demo_request 10 2))) = ''K10'' \<and>
   ''K10'' \<notin> set (concat (map card_headlines (produced_slides demo_lib (demo_request 10 2))))"
proof -
  have u: "use_two_slides (demo_request 10 2)"
    by (simp add: use_two_slides_def)
  have h: "half_cards (demo_request 10 2) = 5"
    by (simp add: half_cards_def)
  show ?thesis
    by (simp add: produced_two_demo [OF u] card_headlines_slide_content h demo_cards_def)
qed

text \<open>
  C10, amended. A run renders at most 8 cards. A run that delivers a deck with two
  slides allowed and N > 8 queued cards renders exactly 8, so some cards are never
  rendered: the queue is the four cards of the first slide, then the dropped rest of
  the first subset (positions 5 to ceil(N/2), never empty), then the four cards of
  the second slide, then the dropped rest of the second subset (floor(N/2) - 4 cards
  at the end of the queue, none only when N = 9). The dropped cards leave no trace:
  the run delivers what it delivers for the queue of the eight rendered cards, deck,
  warnings and file name.
\<close>

theorem dropped_cards:
  assumes c: "completes L r"
  shows "sum_list (map card_visuals (produced_slides L r)) \<le> 8 \<and>
         (2 \<le> max_slides r \<and> 8 < length (cards r) \<longrightarrow>
            sum_list (map card_visuals (produced_slides L r)) = 8 \<and>
            (\<exists>s1 s2. produced_slides L r = [s1, s2] \<and>
               card_headlines s1 = map headline (take 4 (cards r)) \<and>
               card_headlines s2 = map headline (take 4 (drop (half_cards r) (cards r)))) \<and>
            cards r = take 4 (cards r) @ drop 4 (take (half_cards r) (cards r)) @
                      take 4 (drop (half_cards r) (cards r)) @
                      drop (half_cards r + 4) (cards r) \<and>
            half_cards r = (length (cards r) + 1) div 2 \<and>
            length (drop 4 (take (half_cards r) (cards r))) = (length (cards r) + 1) div 2 - 4 \<and>
            0 < length (drop 4 (take (half_cards r) (cards r))) \<and>
            length (drop (half_cards r + 4) (cards r)) = length (cards r) div 2 - 4 \<and>
            (drop (half_cards r + 4) (cards r) = [] \<longleftrightarrow> length (cards r) = 9) \<and>
            (\<exists>d. generate L r = Inr d \<and>
                 generate L (r\<lparr>cards := take 4 (cards r) @
                                          take 4 (drop (half_cards r) (cards r))\<rparr>) = Inr d))"
proof -
  have rest: "sum_list (map card_visuals (produced_slides L r)) = 8 \<and>
            (\<exists>s1 s2. produced_slides L r = [s1, s2] \<and>
               card_headlines s1 = map headline (take 4 (cards r)) \<and>
               card_headlines s2 = map headline (take 4 (drop (half_cards r) (cards r)))) \<and>
            cards r = take 4 (cards r) @ drop 4 (take (half_cards r) (cards r)) @
                      take 4 (drop (half_cards r) (cards r)) @
                      drop (half_cards r + 4) (cards r) \<and>
            half_cards r = (length (cards r) + 1) div 2 \<and>
            length (drop 4 (take (half_cards r) (cards r))) = (length (cards r) + 1) div 2 - 4 \<and>
            0 < length (drop 4 (take (half_cards r) (cards r))) \<and>
            length (drop (half_cards r + 4) (cards r)) = length (cards r) div 2 - 4 \<and>
            (drop (half_cards r + 4) (cards r) = [] \<longleftrightarrow> length (cards r) = 9) \<and>
            (\<exists>d. generate L r = Inr d \<and>
                 generate L (r\<lparr>cards := take 4 (cards r) @
                                          take 4 (drop (half_cards r) (cards r))\<rparr>) = Inr d)"
    if m: "2 \<le> max_slides r" and n: "8 < length (cards r)"
  proof -
    from c obtain prs where p: "create_presentation L (template_file r) = Inr prs"
      by (rule completesE)
    have u: "use_two_slides r"
      using m n by (simp add: use_two_slides_def)
    have h: "half_cards r = (length (cards r) + 1) div 2"
      using n unfolding half_cards_def by arith
    have l1: "min 4 (length (take (half_cards r) (cards r))) = 4"
      using n unfolding h length_take by arith
    have l2: "min 4 (length (drop (half_cards r) (cards r))) = 4"
      using n unfolding h length_drop by arith
    have h4: "4 \<le> half_cards r"
      by (simp add: half_cards_def)
    have t: "take 4 (take (half_cards r) (cards r)) = take 4 (cards r)"
      using h4 by (simp add: min_absorb1)
    have "sum_list (map card_visuals (produced_slides L r)) = 8"
      using l1 l2 by (simp add: produced_two [OF c p u] card_visuals_slide_content)
    moreover have "\<exists>s1 s2. produced_slides L r = [s1, s2] \<and>
              card_headlines s1 = map headline (take 4 (cards r)) \<and>
              card_headlines s2 = map headline (take 4 (drop (half_cards r) (cards r)))"
      using h4 by (simp add: produced_two [OF c p u] card_headlines_slide_content min_absorb1)
    moreover have "cards r = take 4 (cards r) @ drop 4 (take (half_cards r) (cards r)) @
                     take 4 (drop (half_cards r) (cards r)) @ drop (half_cards r + 4) (cards r)"
    proof -
      have "take 4 (cards r) @ drop 4 (take (half_cards r) (cards r)) =
            take (half_cards r) (cards r)"
        using append_take_drop_id [of 4 "take (half_cards r) (cards r)"] by (simp only: t)
      moreover have "take 4 (drop (half_cards r) (cards r)) @ drop (half_cards r + 4) (cards r) =
          drop (half_cards r) (cards r)"
        using append_take_drop_id [of 4 "drop (half_cards r) (cards r)"]
        by (simp add: add.commute)
      ultimately show ?thesis
        using append_take_drop_id [of "half_cards r" "cards r"] by (simp flip: append_assoc)
    qed
    moreover have "length (drop 4 (take (half_cards r) (cards r))) =
        (length (cards r) + 1) div 2 - 4"
      using n unfolding h length_drop length_take by arith
    moreover have "0 < length (drop 4 (take (half_cards r) (cards r)))"
      using n unfolding h length_drop length_take by arith
    moreover have "length (drop (half_cards r + 4) (cards r)) = length (cards r) div 2 - 4"
      using n unfolding h length_drop by arith
    moreover have "drop (half_cards r + 4) (cards r) = [] \<longleftrightarrow> length (cards r) = 9"
      using n unfolding h drop_eq_Nil by arith
    moreover have "\<exists>d. generate L r = Inr d \<and>
                 generate L (r\<lparr>cards := take 4 (cards r) @
                                          take 4 (drop (half_cards r) (cards r))\<rparr>) = Inr d"
    proof -
      let ?A = "take 4 (cards r)" and ?B = "take 4 (drop (half_cards r) (cards r))"
      let ?r = "r\<lparr>cards := ?A @ ?B\<rparr>"
      have la: "length ?A = 4" and lb: "length ?B = 4"
        using l1 l2 n by simp_all
      have u': "use_two_slides ?r"
        using m la lb by (simp add: use_two_slides_def)
      have h': "half_cards ?r = 4"
        using la lb by (simp add: half_cards_def)
      have hi: "half_imgs ?r = half_imgs r"
        by (simp add: half_imgs_def)
      have sp': "split_assets ?r =
          (?A, ?B, take (half_imgs r) (screenshots r), drop (half_imgs r) (screenshots r))"
        using u' la by (simp add: split_assets_def h' hi)
      have sp: "split_assets r =
          (take (half_cards r) (cards r), drop (half_cards r) (cards r),
           take (half_imgs r) (screenshots r), drop (half_imgs r) (screenshots r))"
        using u by (simp add: split_assets_def)
      have "generate L ?r = generate L r"
      proof (rule generate_same_slides)
        show "use_two_slides ?r = use_two_slides r" using u u' by simp
        show "chart_cfg_of L ?r = chart_cfg_of L r" by (rule chart_cfg_of_cards)
        show "build_slide L ?r li (title_text r) (fst (split_assets ?r))
                (fst (snd (snd (split_assets ?r)))) (chart_cfg_of L r) st =
              build_slide L r li (title_text r) (fst (split_assets r))
                (fst (snd (snd (split_assets r)))) (chart_cfg_of L r) st" for li st
          using build_slide_take_cards [of L r li "title_text r" "take (half_cards r) (cards r)"
              "take (half_imgs r) (screenshots r)" "chart_cfg_of L r" st]
          by (simp only: sp sp' fst_conv snd_conv build_slide_cards t)
        show "build_slide L ?r li (title_text r @ '' (cont.)'') (fst (snd (split_assets ?r)))
                (snd (snd (snd (split_assets ?r)))) None st =
              build_slide L r li (title_text r @ '' (cont.)'') (fst (snd (split_assets r)))
                (snd (snd (snd (split_assets r)))) None st" for li st
          using build_slide_take_cards [of L r li "title_text r @ '' (cont.)''"
              "drop (half_cards r) (cards r)" "drop (half_imgs r) (screenshots r)" None st]
          by (simp only: sp sp' fst_conv snd_conv build_slide_cards)
      qed simp_all
      with generate_delivers [OF c] show ?thesis by auto
    qed
    ultimately show ?thesis using h by blast
  qed
  with sum_visuals_le [of L r] show ?thesis by blast
qed

theorem dropped_cards_witness:
  "completes demo_lib (demo_request 10 2) \<and> 2 \<le> max_slides (demo_request 10 2) \<and>
   8 < length (cards (demo_request 10 2)) \<and>
   sum_list (map card_visuals (produced_slides demo_lib (demo_request 10 2))) = 8 \<and>
   map headline (drop 4 (take (half_cards (demo_request 10 2)) (cards (demo_request 10 2)))) =
     [''K5''] \<and>
   map headline (drop (half_cards (demo_request 10 2) + 4) (cards (demo_request 10 2))) =
     [''K10'']"
proof -
  have h: "half_cards (demo_request 10 2) = 5"
    by (simp add: half_cards_def)
  from dropped_cards [of demo_lib "demo_request 10 2"] show ?thesis
    by (simp add: h) (simp add: demo_cards_def)
qed

subsection \<open>The examples with uploads\<close>

lemma demo_load_table:
  "load_table demo_lib demo_csv = (Some 10, [])"
  "load_table demo_lib demo_txt = (None, [''Unsupported table file: Notes.TXT''])"
  "load_table demo_lib demo_empty_csv =
     (None, [''Could not read EMPTY.CSV: No columns to parse from file''])"
  "load_table demo_lib demo_json = (Some 0, [])"
  by (simp_all add: demo_csv_def demo_txt_def demo_empty_csv_def demo_json_def load_table_def
      caught_def could_not_read_def unsupported_def demo_lib_def lower_def endswith_def)

lemma demo_lib_calls:
  "column_str demo_lib df c = (if c = ''month'' then Inr [''Jan'', ''Feb''] else Inl ''KeyError'')"
  "column_float demo_lib df c =
     (if c = ''rate'' then Inr [90, 95] else Inl ''could not convert string to float'')"
  "shapes_add_chart demo_lib k cats nm vals = None"
  "format_chart demo_lib k cats nm vals = Some ''Chart object has no attribute chart_area''"
  "image_open demo_lib f =
     (if content f = [] then Inl ''cannot identify image file''
      else if content f = ''truncated'' then Inl ''image file is truncated'' else Inr 1)"
  "save_png demo_lib i = Inr ''PNG''"
  by (simp_all add: demo_lib_def)

lemma demo_chart_fields:
  "data_files demo_chart_request = [demo_csv]"
  "screenshots demo_chart_request = [demo_shot]"
  "template_file demo_chart_request = None"
  "cards demo_chart_request = take 2 demo_cards"
  "max_slides demo_chart_request = 2"
  "df_choice demo_chart_request = 0"
  "x_choice demo_chart_request = 0"
  "y_choice demo_chart_request = 1"
  "chart_type demo_chart_request = ''bar''"
  "title_text demo_chart_request = ''Executive KPI Summary''"
  "include_speaker_notes demo_chart_request"
  "customer demo_chart_request = []"
  "date_range demo_chart_request = ''Last 3 months''"
  "purpose demo_chart_request = ''C-level review''"
  by (simp_all add: demo_chart_request_def demo_request_def)

lemma demo_chart_cfg:
  "chart_cfg_of demo_lib demo_chart_request =
     Some \<lparr>cfg_df = 10, cfg_x = ''month'', cfg_y = ''rate'', cfg_type = ''bar'',
           cfg_series = ''rate''\<rparr>"
  by (simp add: chart_cfg_of_def chart_mapping_def selectbox_def make_chart_cfg_def
      demo_chart_fields demo_load_table)

lemma demo_chart_block:
  "chart_block demo_lib (chart_cfg_of demo_lib demo_chart_request) =
     ([Chart COLUMN_CLUSTERED 0.5 6.3 11.5 2.3 [''Jan'', ''Feb''] ''rate'' [90, 95]],
      [''Chart could not be added: Chart object has no attribute chart_area''])"
  by (simp add: demo_chart_cfg chart_block_def add_chart_def demo_lib_calls)

lemma demo_shot_block:
  "screenshot_block demo_lib [demo_shot] = ([Picture 0.5 6.3 (Some 11.5) None ''PNG''], [])"
  by (simp add: screenshot_block_def embed_image_def add_screenshot_def demo_shot_def
      demo_lib_calls)

lemma demo_chart_completes: "completes demo_lib demo_chart_request"
  by (simp add: completes_def run_texts_def split_assets_def use_two_slides_def
      slide_texts_def card_texts_def notes_lines_def subtitle_text_def demo_chart_cfg
      demo_chart_fields demo_cards_def demo_shot_def bullet_def em_dash_def newline_def)

subsection \<open>Failures inside and outside the try blocks\<close>

lemma chart_kpi_card_shapes: "filter is_chart (kpi_card_shapes l t w h a b c acc) = []"
  by (simp add: kpi_card_shapes_def)

lemma chart_grid_shapes: "filter is_chart (grid_shapes acc cs) = []"
  unfolding grid_shapes_def placed_cards_def
  by (auto simp: filter_concat chart_kpi_card_shapes)

lemma chart_screenshot_block: "filter is_chart (fst (screenshot_block L imgs)) = []"
  by (cases imgs)
    (auto simp: screenshot_block_def embed_image_def add_screenshot_def Let_def
      split: sum.splits)

lemma charts_slide_content:
  "charts (fst (slide_content L r lay t cs imgs cfg)) =
     length (filter is_chart (fst (chart_block L cfg)))"
  by (simp add: slide_content_def charts_def title_shapes_def chart_grid_shapes
      chart_screenshot_block)

lemma pictures_slide_content_eq:
  "pictures (fst (slide_content L r lay t cs imgs cfg)) =
     length (filter is_picture (fst (screenshot_block L imgs)))"
  by (simp add: slide_content_def pictures_def pic_title_shapes pic_grid_shapes pic_chart_block)

lemma shown_warnings_eq:
  assumes c: "completes L r"
    and p: "create_presentation L (template_file r) = Inr prs"
  shows "shown_warnings L r =
     snd (load_tables L (data_files r)) @
     concat (map snd (planned L r (slide_layouts prs ! layout_idx_of prs)))"
  by (simp add: shown_warnings_def generate_Inr [OF c p])

text \<open>
  C6, at two inputs where the script does not do what the claim says. A table mapped
  to a bar chart, with two cards and a screenshot: the chart is placed at line 112,
  the formatting raises at line 116, and the run delivers one slide that holds the
  chart beside the picture and the two cards, with the warning that the chart could
  not be added; the failing item is not skipped. And a screenshot that cannot be
  shown: the preview at line 210, which is in no \<open>try\<close>, ends the run before the
  handler, and nothing is delivered.
\<close>

theorem chart_kept_with_warning:
  "map charts (produced_slides demo_lib demo_chart_request) = [1] \<and>
   map pictures (produced_slides demo_lib demo_chart_request) = [1] \<and>
   map card_visuals (produced_slides demo_lib demo_chart_request) = [2] \<and>
   shown_warnings demo_lib demo_chart_request =
     [''Chart could not be added: Chart object has no attribute chart_area''] \<and>
   generate demo_lib demo_preview_request = Inl (Raised ''cannot identify image file'')"
proof -
  have p: "create_presentation demo_lib (template_file demo_chart_request) =
      Inr \<lparr>slide_layouts = [0, 1, 2, 3, 4, 5, 6, 7, 8, 9, 10], slides = []\<rparr>"
    by (simp add: demo_chart_fields)
  have u: "\<not> use_two_slides demo_chart_request"
    by (simp add: use_two_slides_def demo_chart_fields)
  have a: "map charts (produced_slides demo_lib demo_chart_request) = [1]"
    "map pictures (produced_slides demo_lib demo_chart_request) = [1]"
    "map card_visuals (produced_slides demo_lib demo_chart_request) = [2]"
    by (simp_all add: produced_one [OF demo_chart_completes p u] charts_slide_content
        pictures_slide_content_eq card_visuals_slide_content demo_chart_block demo_shot_block
        demo_chart_fields)
  have b: "shown_warnings demo_lib demo_chart_request =
     [''Chart could not be added: Chart object has no attribute chart_area'']"
    using u
    by (simp add: shown_warnings_eq [OF demo_chart_completes p] planned_def split_assets_def
        slide_content_def demo_chart_block demo_shot_block demo_chart_fields demo_load_table)
  have c: "generate demo_lib demo_preview_request = Inl (Raised ''cannot identify image file'')"
    by (simp add: generate_unfold demo_preview_request_def demo_request_def demo_empty_png_def)
  from a b c show ?thesis by simp
qed

text \<open>
  A text that is not XML compatible and a template that does not open end the run:
  the assignments at lines 52 and 132 and the call at line 219 are in no \<open>try\<close>.
\<close>

lemma demo_title_aborts:
  "generate demo_lib demo_title_request = Inl (Raised ''All strings must be XML compatible'')"
  "\<not> completes demo_lib demo_title_request"
  "produced_slides demo_lib demo_title_request = []"
proof -
  show g: "generate demo_lib demo_title_request =
      Inl (Raised ''All strings must be XML compatible'')"
    by (simp add: generate_unfold demo_title_request_def demo_request_def build_slide_eq
        layout_idx_of_def slide_texts_def)
  then show "\<not> completes demo_lib demo_title_request"
    using generate_delivers [of demo_lib demo_title_request] by auto
  from g show "produced_slides demo_lib demo_title_request = []"
    by (simp add: produced_slides_def)
qed

lemma demo_template_aborts:
  "generate demo_lib ((demo_request 1 1)\<lparr>template_file := Some ''junk''\<rparr>) =
     Inl (Raised ''Package not found'')"
  by (simp add: generate_unfold create_presentation_def demo_lib_def demo_request_def)

subsection \<open>Loading the tables\<close>

lemma load_tables_append:
  "load_tables L (fs @ gs) =
     (fst (load_tables L fs) @ fst (load_tables L gs),
      snd (load_tables L fs) @ snd (load_tables L gs))"
  by (induction fs) (simp_all add: split_beta split: option.splits)

lemma load_tables_map_filter:
  "fst (load_tables L fs) = List.map_filter (\<lambda>g. fst (load_table L g)) fs"
  by (induction fs) (simp_all add: split_beta map_filter_simps split: option.splits)

lemma load_tables_skip:
  assumes "load_table L f = (None, [w])"
  shows "load_tables L (fs @ f # gs) =
           (fst (load_tables L fs) @ fst (load_tables L gs),
            snd (load_tables L fs) @ w # snd (load_tables L gs))"
  using assms by (simp add: load_tables_append [of L fs "f # gs"] split_beta)

lemma parse_failure_caught:
  "parse_attempt L f = Some (Inl e) \<Longrightarrow> load_table L f = (None, [could_not_read f e])"
  by (auto simp: parse_attempt_def load_table_def caught_def Let_def split: if_splits)

lemma load_table_passes_on:
  "parse_attempt L f = Some (Inr df) \<Longrightarrow> load_table L f = (Some df, [])"
  by (auto simp: parse_attempt_def load_table_def caught_def Let_def split: if_splits)

lemma image_exception_caught:
  assumes "image_open L img = Inl e"
  shows "screenshot_block L (img # rest) = ([], [''Could not embed '' @ name img @ '': '' @ e])"
  using assms by (simp add: screenshot_block_def embed_image_def)

lemma chart_exception_before_placing:
  assumes "column_str L (cfg_df cfg) (cfg_x cfg) = Inl e"
  shows "chart_block L (Some cfg) = ([], [''Chart could not be added: '' @ e])"
  using assms by (simp add: chart_block_def add_chart_def)

text \<open>
  C7. A file whose name, in lower case as the loader reads it, ends in none of
  \<open>.csv\<close>, \<open>.xlsx\<close>, \<open>.xls\<close>, \<open>.json\<close> yields no table and the one warning
  that it is unsupported. Wherever it stands among the uploads, the tables loaded
  are those of the other files, each loaded on its own, in their order, and the
  warnings are theirs with this one in its place.
\<close>

theorem unsupported_is_skipped:
  assumes "\<not> supported (lower (name f))"
  shows "load_table L f = (None, [unsupported f]) \<and>
         fst (load_tables L (fs @ f # gs)) =
           List.map_filter (\<lambda>g. fst (load_table L g)) (fs @ gs) \<and>
         load_tables L (fs @ f # gs) =
           (fst (load_tables L fs) @ fst (load_tables L gs),
            snd (load_tables L fs) @ unsupported f # snd (load_tables L gs))"
proof -
  have a: "load_table L f = (None, [unsupported f])"
    using assms by (simp add: load_table_def supported_def Let_def)
  then have b: "load_tables L (fs @ f # gs) =
           (fst (load_tables L fs) @ fst (load_tables L gs),
            snd (load_tables L fs) @ unsupported f # snd (load_tables L gs))"
    by (simp add: load_tables_append [of L fs "f # gs"] split_beta)
  have "fst (load_tables L (fs @ f # gs)) = List.map_filter (\<lambda>g. fst (load_table L g)) (fs @ gs)"
    by (simp add: b load_tables_map_filter List.map_filter_def)
  with a b show ?thesis by simp
qed

theorem unsupported_is_skipped_witness:
  "\<not> supported (lower (name demo_txt)) \<and>
   load_table demo_lib demo_txt = (None, [''Unsupported table file: Notes.TXT'']) \<and>
   load_tables demo_lib [demo_csv, demo_txt, demo_empty_csv, demo_json] =
     ([10, 0], [''Unsupported table file: Notes.TXT'',
                ''Could not read EMPTY.CSV: No columns to parse from file''])"
proof -
  have h: "\<not> supported (lower (name demo_txt))"
    by (simp add: demo_txt_def supported_def lower_def endswith_def)
  have u: "unsupported demo_txt = ''Unsupported table file: Notes.TXT''"
    by (simp add: unsupported_def demo_txt_def)
  from unsupported_is_skipped [OF h, of demo_lib "[demo_csv]" "[demo_empty_csv, demo_json]"]
  show ?thesis
    using h by (simp add: demo_load_table u)
qed

subsection \<open>The auto-crop option\<close>

lemma subtitle_text_auto_crop:
  "subtitle_text (r\<lparr>enable_auto_crop := b\<rparr>) = subtitle_text r"
  by (simp add: subtitle_text_def)

lemma slide_texts_auto_crop:
  "slide_texts (r\<lparr>enable_auto_crop := b\<rparr>) t cs cfg = slide_texts r t cs cfg"
  by (simp add: slide_texts_def subtitle_text_auto_crop)

lemma slide_content_auto_crop:
  "slide_content L (r\<lparr>enable_auto_crop := b\<rparr>) lay t cs imgs cfg =
     slide_content L r lay t cs imgs cfg"
  by (simp add: slide_content_def title_shapes_def subtitle_text_auto_crop)

lemma slide_body_auto_crop:
  "slide_body L (r\<lparr>enable_auto_crop := b\<rparr>) lay t cs imgs cfg = slide_body L r lay t cs imgs cfg"
  by (simp only: slide_body_eq slide_texts_auto_crop slide_content_auto_crop)

lemma build_slide_auto_crop:
  "build_slide L (r\<lparr>enable_auto_crop := b\<rparr>) li t cs imgs cfg st = build_slide L r li t cs imgs cfg st"
  by (cases st) (simp add: build_slide_def slide_body_auto_crop)

lemma split_assets_auto_crop:
  "split_assets (r\<lparr>enable_auto_crop := b\<rparr>) = split_assets r"
  "use_two_slides (r\<lparr>enable_auto_crop := b\<rparr>) = use_two_slides r"
  by (simp_all add: split_assets_def use_two_slides_def half_cards_def half_imgs_def)

lemma chart_cfg_of_auto_crop:
  "chart_cfg_of L (r\<lparr>enable_auto_crop := b\<rparr>) = chart_cfg_of L r"
  by (simp add: chart_cfg_of_def chart_mapping_def make_chart_cfg_def Let_def
      split: option.splits)

text \<open>
  C9. Two runs that differ only in the auto-crop option deliver the same result:
  the same deck, the same warnings and the same file name, or the same failure.
\<close>

theorem auto_crop_is_not_read:
  "generate L (r\<lparr>enable_auto_crop := b\<rparr>) = generate L r"
  by (rule generate_same_slides)
    (simp_all add: split_assets_auto_crop chart_cfg_of_auto_crop build_slide_auto_crop)

end
